theory Spec2Isabelle
  imports Complex_Main "HOL-Library.Word"
begin

section \<open>The Keysight 3000 block protocol driver (protocol.c, protocol.h)\<close>

text \<open>
  A shallow embedding of \<^verbatim>\<open>src/hardware/keysight-3000/protocol.c\<close>.  The driver is one
  callback, \<^verbatim>\<open>keysight_receive\<close>, that an event loop calls whenever the instrument may
  have sent bytes.  It mutates one \<^verbatim>\<open>struct dev_context\<close>, talks to the instrument through
  the SCPI transport of libsigrok and feeds packets to the session.  The device context is
  a record that is passed in and returned; the transport is a script of what the instrument
  will answer, consumed call by call; everything the driver does to the outside (commands,
  read requests, packets) is appended to a trace.
\<close>

subsection \<open>C types and constants\<close>

text \<open>
  \<^verbatim>\<open>int\<close> is a 32-bit word read as two's complement (\<open>sint\<close>), \<^verbatim>\<open>uint64_t\<close> and
  \<^verbatim>\<open>size_t\<close> are 64-bit words, a byte of the acquisition buffer is a \<open>char\<close>.  The
  conversions of the source are written out: \<open>scast\<close> for \<^verbatim>\<open>int\<close> to \<^verbatim>\<open>uint64_t\<close>
  (sign extension), \<open>ucast\<close> for \<^verbatim>\<open>uint64_t\<close> to \<^verbatim>\<open>int\<close> (truncation).
\<close>

type_synonym cint = "32 word"
type_synonym uint64_t = "64 word"
type_synonym size_t = "64 word"

text \<open>
  Constants of headers that are not part of the driver: \<^verbatim>\<open>SR_OK\<close> and \<^verbatim>\<open>SR_ERR\<close> of
  libsigrok.h, \<^verbatim>\<open>TRUE\<close> and \<^verbatim>\<open>G_IO_IN\<close> of glib, the limits of limits.h on an LP64
  target.  \<^verbatim>\<open>ACQ_BUFFER_SIZE\<close> is protocol.h, line 32.
\<close>

definition SR_OK :: cint where "SR_OK = 0"
definition SR_ERR :: cint where "SR_ERR = - 1"
definition TRUE :: cint where "TRUE = 1"
definition G_IO_IN :: cint where "G_IO_IN = 1"
definition ACQ_BUFFER_SIZE :: cint where "ACQ_BUFFER_SIZE = 64 * 1024"

definition INT_MAX :: int where "INT_MAX = 2 ^ 31 - 1"
definition INT_MIN :: int where "INT_MIN = - (2 ^ 31)"
definition LONG_MAX :: int where "LONG_MAX = 2 ^ 63 - 1"
definition LONG_MIN :: int where "LONG_MIN = - (2 ^ 63)"

subsection \<open>The C library: \<^verbatim>\<open>isdigit\<close>, \<^verbatim>\<open>isspace\<close>, \<^verbatim>\<open>strtol\<close>\<close>

text \<open>
  The character classes of the C locale.  \<^verbatim>\<open>isspace\<close> holds of space, \<^verbatim>\<open>\t\<close>, \<^verbatim>\<open>\n\<close>,
  \<^verbatim>\<open>\v\<close>, \<^verbatim>\<open>\f\<close> and \<^verbatim>\<open>\r\<close>.
\<close>

definition isdigit :: "char \<Rightarrow> bool" where
  "isdigit c \<longleftrightarrow> 48 \<le> (of_char c :: nat) \<and> (of_char c :: nat) \<le> 57"

definition isspace :: "char \<Rightarrow> bool" where
  "isspace c \<longleftrightarrow> (of_char c :: nat) = 32 \<or> (9 \<le> (of_char c :: nat) \<and> (of_char c :: nat) \<le> 13)"

text \<open>The value of a run of decimal digits, most significant first.\<close>

definition decimal :: "string \<Rightarrow> int" where
  "decimal ds = foldl (\<lambda>acc c. 10 * acc + (of_char c - 48)) 0 ds"

text \<open>
  A C string is the bytes before the first NUL.  \<open>c_string bs\<close> is what a \<^verbatim>\<open>char *\<close> to
  the first of the bytes \<open>bs\<close> denotes when a NUL follows them.
\<close>

definition c_string :: "string \<Rightarrow> string" where
  "c_string bs = takeWhile (\<lambda>c. c \<noteq> CHR 0x00) bs"

text \<open>
  \<^verbatim>\<open>strtol(str, &e, 10)\<close> as ISO C defines it: white space is skipped, one sign is
  optional, then the longest run of decimal digits is converted.  The result is the
  value, the offset of \<^verbatim>\<open>e\<close> from \<^verbatim>\<open>str\<close> and whether \<^verbatim>\<open>errno\<close> was set to
  \<^verbatim>\<open>ERANGE\<close>.  With no digit nothing is converted and \<^verbatim>\<open>e == str\<close>; a value outside
  \<^verbatim>\<open>long\<close> is clamped and sets \<^verbatim>\<open>errno\<close>.
\<close>

definition strtol :: "string \<Rightarrow> int \<times> nat \<times> bool" where
  "strtol str =
     (let ws = takeWhile isspace str;
          s1 = dropWhile isspace str;
          sign = (case s1 of [] \<Rightarrow> [] | c # _ \<Rightarrow> if c = CHR ''-'' \<or> c = CHR ''+'' then [c] else []);
          s2 = drop (length sign) s1;
          ds = takeWhile isdigit s2;
          v = (if sign = ''-'' then - decimal ds else decimal ds)
      in if ds = [] then (0, 0, False)
         else if LONG_MAX < v then (LONG_MAX, length ws + length sign + length ds, True)
         else if v < LONG_MIN then (LONG_MIN, length ws + length sign + length ds, True)
         else (v, length ws + length sign + length ds, False))"

subsection \<open>\<^verbatim>\<open>parse_int\<close> (protocol.c, lines 69-91)\<close>

text \<open>
  \<open>None\<close> is the return value \<^verbatim>\<open>SR_ERR\<close>; \<open>Some v\<close> is \<^verbatim>\<open>SR_OK\<close> with \<^verbatim>\<open>*ret = v\<close>.
  The argument is the C string, without its terminating NUL.
\<close>

definition parse_int :: "string \<Rightarrow> cint option" where
  "parse_int str =
     (case strtol str of (tmp, e, errno) \<Rightarrow>
        if e = 0 \<or> e \<noteq> length str then None
        else if errno then None
        else if INT_MAX < tmp \<or> tmp < INT_MIN then None
        else Some (word_of_int tmp))"

subsection \<open>The device context (protocol.h, lines 75-134)\<close>

datatype state_e = STATE_IDLE | STATE_DIGITIZING | STATE_READING_DATA

datatype channeltype = SR_CHANNEL_LOGIC | SR_CHANNEL_ANALOG

text \<open>\<^verbatim>\<open>struct sr_channel\<close> of libsigrok.h, the two fields the driver reads.\<close>

record sr_channel =
  index :: int
  ctype :: channeltype

text \<open>
  The fields of \<^verbatim>\<open>struct dev_context\<close> that the capture functions read or write.  A
  \<^verbatim>\<open>GSList *\<close> is the list from that node on: \<^verbatim>\<open>->data\<close> is its head, \<^verbatim>\<open>->next\<close> its
  tail, \<^verbatim>\<open>NULL\<close> the empty list.  The arrays indexed by \<^verbatim>\<open>ch->index\<close> are total maps
  (an index outside \<^verbatim>\<open>MAX_ANALOG_CHANNELS\<close> is not modelled).  A \<^verbatim>\<open>float\<close> or
  \<^verbatim>\<open>double\<close> value is the real number it denotes; the rounding of the operations on
  them is the parameter \<open>fpu\<close> below.
\<close>

record dev_context =
  enabled_channels :: "sr_channel list"
  limit_frames :: cint
  vert_reference :: "int \<Rightarrow> cint"
  vert_origin :: "int \<Rightarrow> real"
  vert_offset :: "int \<Rightarrow> real"
  vert_inc :: "int \<Rightarrow> real"
  num_frames :: uint64_t
  channel_entry :: "sr_channel list"
  num_channel_bytes_total :: cint
  num_channel_bytes :: uint64_t
  num_header_bytes :: uint64_t
  num_block_bytes :: uint64_t
  num_block_read :: uint64_t
  state :: state_e
  buffer :: "nat \<Rightarrow> char"
  data :: "nat \<Rightarrow> real"

subsection \<open>The outside: SCPI transport and session\<close>

text \<open>
  The commands and queries the driver sends, by their text:
  \<^verbatim>\<open>:WAV:SOUR CHAN%d\<close>, \<^verbatim>\<open>:WAV:SOUR POD%d\<close>, \<^verbatim>\<open>:WAV:FORM BYTE\<close>,
  \<^verbatim>\<open>:WAV:POIN:MODE NORM\<close>, \<^verbatim>\<open>:WAV:UNS ON\<close>, \<^verbatim>\<open>:DIGitize;*OPC?\<close>, \<^verbatim>\<open>:WAV:DATA?\<close>,
  \<^verbatim>\<open>:WAV:YINC?\<close>, \<^verbatim>\<open>:WAV:YOR?\<close>, \<^verbatim>\<open>:WAV:YREF?\<close>, \<^verbatim>\<open>:WAV:POIN?\<close>.
\<close>

datatype scpi_cmd =
    WAV_SOUR_CHAN int | WAV_SOUR_POD int | WAV_FORM_BYTE | WAV_POIN_MODE_NORM | WAV_UNS_ON
  | DIGITIZE_OPC | WAV_DATA | WAV_YINC | WAV_YOR | WAV_YREF | WAV_POIN

text \<open>
  The packets of the data feed.  An analog packet carries its channel, its samples and the
  digits given to \<^verbatim>\<open>sr_analog_init\<close> (its quantity, unit and flags are the constants
  \<^verbatim>\<open>SR_MQ_VOLTAGE\<close>, \<^verbatim>\<open>SR_UNIT_VOLT\<close>, 0); a logic packet carries its bytes and its unit
  size.
\<close>

datatype packet =
    SR_DF_FRAME_BEGIN
  | SR_DF_FRAME_END
  | SR_DF_ANALOG sr_channel "real list" int
  | SR_DF_LOGIC string nat

datatype event =
    Send scpi_cmd
  | GetOpc
  | Query scpi_cmd
  | ReadBegin
  | ReadData cint
  | ReadComplete
  | SessionSend packet
  | AcquisitionStop

text \<open>
  What the instrument will do: one \<open>reply\<close> for each command or query call, one \<open>rd\<close>
  for each call of \<^verbatim>\<open>sr_scpi_read_data\<close> (the read fails, or that many bytes are ready),
  and the bytes it has yet to deliver.
\<close>

datatype reply = Failed | Succeeded | Float real | Integer cint

datatype rd = RdErr | RdAvail nat

record sr_scpi_dev_inst =
  wire :: string
  reads :: "rd list"
  replies :: "reply list"
  trace :: "event list"

text \<open>\<^verbatim>\<open>struct sr_dev_inst\<close>: \<^verbatim>\<open>priv\<close> may be \<^verbatim>\<open>NULL\<close>.\<close>

record sr_dev_inst =
  priv :: "dev_context option"
  conn :: sr_scpi_dev_inst

datatype fault = NullPointer

definition emit :: "event \<Rightarrow> sr_scpi_dev_inst \<Rightarrow> sr_scpi_dev_inst" where
  "emit e scpi = scpi\<lparr>trace := trace scpi @ [e]\<rparr>"

definition next_reply :: "sr_scpi_dev_inst \<Rightarrow> reply \<times> sr_scpi_dev_inst" where
  "next_reply scpi =
     (case replies scpi of [] \<Rightarrow> (Failed, scpi) | r # rs \<Rightarrow> (r, scpi\<lparr>replies := rs\<rparr>))"

text \<open>
  Modelled from the spec: the transport collaborator of section 6, \<^verbatim>\<open>sendCommand(text)\<close>
  (scpi.c is not among the sources).  The call is traced and succeeds when the instrument's
  next reply is \<open>Succeeded\<close>; a script that has run out is an instrument that does not answer.
\<close>

definition sr_scpi_send :: "scpi_cmd \<Rightarrow> sr_scpi_dev_inst \<Rightarrow> cint \<times> sr_scpi_dev_inst" where
  "sr_scpi_send c scpi =
     (case next_reply (emit (Send c) scpi) of
        (Succeeded, scpi') \<Rightarrow> (SR_OK, scpi')
      | (_, scpi') \<Rightarrow> (SR_ERR, scpi'))"

text \<open>
  Modelled from the spec: the operation-complete query of the transport collaborator
  (\<^verbatim>\<open>sr_scpi_get_opc\<close> of scpi.c), by the same rule.
\<close>

definition sr_scpi_get_opc :: "sr_scpi_dev_inst \<Rightarrow> cint \<times> sr_scpi_dev_inst" where
  "sr_scpi_get_opc scpi =
     (case next_reply (emit GetOpc scpi) of
        (Succeeded, scpi') \<Rightarrow> (SR_OK, scpi')
      | (_, scpi') \<Rightarrow> (SR_ERR, scpi'))"

text \<open>
  Modelled from the spec: the typed query helpers \<^verbatim>\<open>queryFloat\<close> and \<^verbatim>\<open>queryInt\<close> of
  section 6.  \<open>None\<close> is a result other than \<^verbatim>\<open>SR_OK\<close>, and then nothing is stored.
\<close>

definition sr_scpi_get_float :: "scpi_cmd \<Rightarrow> sr_scpi_dev_inst \<Rightarrow> real option \<times> sr_scpi_dev_inst" where
  "sr_scpi_get_float q scpi =
     (case next_reply (emit (Query q) scpi) of
        (Float v, scpi') \<Rightarrow> (Some v, scpi')
      | (_, scpi') \<Rightarrow> (None, scpi'))"

definition sr_scpi_get_int :: "scpi_cmd \<Rightarrow> sr_scpi_dev_inst \<Rightarrow> cint option \<times> sr_scpi_dev_inst" where
  "sr_scpi_get_int q scpi =
     (case next_reply (emit (Query q) scpi) of
        (Integer v, scpi') \<Rightarrow> (Some v, scpi')
      | (_, scpi') \<Rightarrow> (None, scpi'))"

text \<open>
  Modelled from the spec: beginning the response read (\<^verbatim>\<open>sr_scpi_read_begin\<close>) and
  \<^verbatim>\<open>readPendingComplete\<close> (\<^verbatim>\<open>sr_scpi_read_complete\<close>), whose result only selects a log
  message of the driver.
\<close>

definition sr_scpi_read_begin :: "sr_scpi_dev_inst \<Rightarrow> cint \<times> sr_scpi_dev_inst" where
  "sr_scpi_read_begin scpi =
     (case next_reply (emit ReadBegin scpi) of
        (Succeeded, scpi') \<Rightarrow> (SR_OK, scpi')
      | (_, scpi') \<Rightarrow> (SR_ERR, scpi'))"

definition sr_scpi_read_complete :: "sr_scpi_dev_inst \<Rightarrow> sr_scpi_dev_inst" where
  "sr_scpi_read_complete scpi = emit ReadComplete scpi"

text \<open>
  Modelled from the spec: \<^verbatim>\<open>readBytes(buffer, maxLen) -> bytesRead | error\<close> of section 6,
  synchronous and non-blocking.  The call returns \<^verbatim>\<open>SR_ERR\<close> when the read fails, and
  otherwise the bytes that are ready, at most \<open>maxlen\<close> of them, taken from the front of
  the wire; with the script of reads run out, nothing is ready.  The result is the return
  value, the bytes stored at the caller's pointer, and the transport after the call.
\<close>

definition sr_scpi_read_data :: "cint \<Rightarrow> sr_scpi_dev_inst \<Rightarrow> cint \<times> string \<times> sr_scpi_dev_inst" where
  "sr_scpi_read_data maxlen scpi =
     (let scpi' = emit (ReadData maxlen) (scpi\<lparr>reads := tl (reads scpi)\<rparr>) in
      case reads scpi of
        [] \<Rightarrow> (0, [], scpi')
      | RdErr # _ \<Rightarrow> (SR_ERR, [], scpi')
      | RdAvail k # _ \<Rightarrow>
          (let bs = take (min k (nat (sint maxlen))) (wire scpi)
           in (of_nat (length bs), bs, scpi'\<lparr>wire := drop (length bs) (wire scpi)\<rparr>)))"

text \<open>
  Modelled from the spec: the packet sink of section 6 (\<^verbatim>\<open>sr_session_send\<close>,
  \<^verbatim>\<open>std_session_send_df_frame_begin\<close>, \<^verbatim>\<open>std_session_send_df_frame_end\<close>) and the stop
  request \<^verbatim>\<open>sr_dev_acquisition_stop\<close>; each is an event of the trace.
\<close>

definition sr_session_send :: "packet \<Rightarrow> sr_scpi_dev_inst \<Rightarrow> sr_scpi_dev_inst" where
  "sr_session_send p scpi = emit (SessionSend p) scpi"

definition std_session_send_df_frame_begin :: "sr_scpi_dev_inst \<Rightarrow> sr_scpi_dev_inst" where
  "std_session_send_df_frame_begin scpi = sr_session_send SR_DF_FRAME_BEGIN scpi"

definition std_session_send_df_frame_end :: "sr_scpi_dev_inst \<Rightarrow> sr_scpi_dev_inst" where
  "std_session_send_df_frame_end scpi = sr_session_send SR_DF_FRAME_END scpi"

definition sr_dev_acquisition_stop :: "sr_scpi_dev_inst \<Rightarrow> sr_scpi_dev_inst" where
  "sr_dev_acquisition_stop scpi = emit AcquisitionStop scpi"

text \<open>Storing the bytes \<open>bs\<close> at \<^verbatim>\<open>buf + off\<close>.\<close>

definition store :: "(nat \<Rightarrow> char) \<Rightarrow> nat \<Rightarrow> string \<Rightarrow> nat \<Rightarrow> char" where
  "store buf off bs = (\<lambda>i. if off \<le> i \<and> i < off + length bs then bs ! (i - off) else buf i)"

text \<open>
  Floating point.  Rounding is a parameter: the subtraction and the multiplication
  of \<^verbatim>\<open>double\<close>, the conversion of a \<^verbatim>\<open>double\<close> to \<^verbatim>\<open>float\<close> on assignment, and
  \<^verbatim>\<open>log10f\<close> of the C library.  The conversions of \<^verbatim>\<open>int\<close> and of \<^verbatim>\<open>float\<close> to
  \<^verbatim>\<open>double\<close> are exact.  \<open>exact_fpu\<close> is the arithmetic without rounding.
\<close>

record fpu =
  dsub :: "real \<Rightarrow> real \<Rightarrow> real"
  dmul :: "real \<Rightarrow> real \<Rightarrow> real"
  to_float :: "real \<Rightarrow> real"
  log10f :: "real \<Rightarrow> real"

definition exact_fpu :: fpu where
  "exact_fpu = \<lparr>dsub = (\<lambda>x y. x - y), dmul = (\<lambda>x y. x * y), to_float = (\<lambda>x. x), log10f = log 10\<rparr>"

text \<open>The conversion \<^verbatim>\<open>(int)x\<close> of a floating-point value discards the fraction.\<close>

definition c_trunc :: "real \<Rightarrow> int" where
  "c_trunc x = (if x < 0 then - \<lfloor>- x\<rfloor> else \<lfloor>x\<rfloor>)"

subsection \<open>\<^verbatim>\<open>keysight_config_set\<close> (protocol.c, lines 94-108)\<close>

text \<open>The formatted command is sent; on success the result is that of the
  operation-complete query.  Of its \<^verbatim>\<open>sdi\<close> the function uses the connection only.\<close>

definition keysight_config_set :: "scpi_cmd \<Rightarrow> sr_scpi_dev_inst \<Rightarrow> cint \<times> sr_scpi_dev_inst" where
  "keysight_config_set c scpi =
     (case sr_scpi_send c scpi of (ret, scpi1) \<Rightarrow>
        if ret \<noteq> SR_OK then (SR_ERR, scpi1) else sr_scpi_get_opc scpi1)"

subsection \<open>\<^verbatim>\<open>keysight_capture_start\<close> (protocol.c, lines 111-134)\<close>

text \<open>
  \<^verbatim>\<open>limit_frames\<close> is read for the debug message only (lines 120-126), which is not
  part of the trace; no branch of the function depends on it.
\<close>

definition keysight_capture_start :: "sr_dev_inst \<Rightarrow> cint \<times> sr_dev_inst" where
  "keysight_capture_start sdi =
     (case priv sdi of
        None \<Rightarrow> (SR_ERR, sdi)
      | Some devc \<Rightarrow>
          (case sr_scpi_send DIGITIZE_OPC (conn sdi) of (ret, scpi1) \<Rightarrow>
             if ret \<noteq> SR_OK then (TRUE, sdi\<lparr>conn := scpi1\<rparr>)
             else (SR_OK, sdi\<lparr>priv := Some (devc\<lparr>state := STATE_DIGITIZING\<rparr>), conn := scpi1\<rparr>)))"

subsection \<open>\<^verbatim>\<open>keysight_channel_start\<close> (protocol.c, lines 137-205)\<close>

text \<open>Lines 162-187: the setup done on the first frame only.\<close>

definition first_frame_setup ::
  "sr_channel \<Rightarrow> dev_context \<Rightarrow> sr_scpi_dev_inst \<Rightarrow> cint \<times> dev_context \<times> sr_scpi_dev_inst" where
  "first_frame_setup ch devc scpi =
     (case keysight_config_set WAV_FORM_BYTE scpi of (r1, s1) \<Rightarrow>
      if r1 \<noteq> SR_OK then (SR_ERR, devc, s1) else
      case keysight_config_set WAV_POIN_MODE_NORM s1 of (r2, s2) \<Rightarrow>
      if r2 \<noteq> SR_OK then (SR_ERR, devc, s2) else
      case keysight_config_set WAV_UNS_ON s2 of (r3, s3) \<Rightarrow>
      if r3 \<noteq> SR_OK then (SR_ERR, devc, s3) else
      if ctype ch = SR_CHANNEL_ANALOG then
        (case sr_scpi_get_float WAV_YINC s3 of
           (None, s4) \<Rightarrow> (SR_ERR, devc, s4)
         | (Some yinc, s4) \<Rightarrow>
             (let devc4 = devc\<lparr>vert_inc := (vert_inc devc)(index ch := yinc)\<rparr> in
              case sr_scpi_get_float WAV_YOR s4 of
                (None, s5) \<Rightarrow> (SR_ERR, devc4, s5)
              | (Some yor, s5) \<Rightarrow>
                  (let devc5 = devc4\<lparr>vert_origin := (vert_origin devc4)(index ch := yor)\<rparr> in
                   case sr_scpi_get_int WAV_YREF s5 of
                     (None, s6) \<Rightarrow> (SR_ERR, devc5, s6)
                   | (Some yref, s6) \<Rightarrow>
                       (SR_OK,
                        devc5\<lparr>vert_reference := (vert_reference devc5)(index ch := yref)\<rparr>,
                        s6))))
      else (SR_OK, devc, s3))"

text \<open>
  Lines 190-204: the number of bytes to come is asked for, the counters are reset, the
  data is requested and the read of the response begun.
\<close>

definition request_channel_data ::
  "sr_dev_inst \<Rightarrow> dev_context \<Rightarrow> sr_scpi_dev_inst \<Rightarrow> cint \<times> sr_dev_inst" where
  "request_channel_data sdi devc scpi =
     (case sr_scpi_get_int WAV_POIN scpi of
        (None, s1) \<Rightarrow> (SR_ERR, sdi\<lparr>priv := Some devc, conn := s1\<rparr>)
      | (Some points, s1) \<Rightarrow>
          (let devc1 = devc\<lparr>num_channel_bytes_total := points, num_channel_bytes := 0,
                             num_header_bytes := 0, num_block_bytes := 0\<rparr> in
           case sr_scpi_send WAV_DATA s1 of (r2, s2) \<Rightarrow>
           if r2 \<noteq> SR_OK then (TRUE, sdi\<lparr>priv := Some devc1, conn := s2\<rparr>) else
           (case sr_scpi_read_begin s2 of (r3, s3) \<Rightarrow>
            if r3 \<noteq> SR_OK then (TRUE, sdi\<lparr>priv := Some devc1, conn := s3\<rparr>)
            else (SR_OK, sdi\<lparr>priv := Some (devc1\<lparr>state := STATE_READING_DATA\<rparr>),
                              conn := s3\<rparr>))))"

definition keysight_channel_start :: "sr_dev_inst \<Rightarrow> fault + (cint \<times> sr_dev_inst)" where
  "keysight_channel_start sdi =
     (case priv sdi of
        None \<Rightarrow> Inr (SR_ERR, sdi)
      | Some devc \<Rightarrow>
     (case channel_entry devc of
        [] \<Rightarrow> Inl NullPointer
      | ch # _ \<Rightarrow>
     (let first_frame = (num_frames devc = 0) in
      case keysight_config_set
             (if ctype ch = SR_CHANNEL_ANALOG then WAV_SOUR_CHAN (index ch + 1)
              else WAV_SOUR_POD (if index ch < 8 then 1 else 2)) (conn sdi) of (r1, s1) \<Rightarrow>
      if r1 \<noteq> SR_OK then Inr (SR_ERR, sdi\<lparr>conn := s1\<rparr>) else
     (case (if first_frame then first_frame_setup ch devc s1 else (SR_OK, devc, s1)) of
        (r2, devc2, s2) \<Rightarrow>
      if r2 \<noteq> SR_OK then Inr (SR_ERR, sdi\<lparr>priv := Some devc2, conn := s2\<rparr>)
      else Inr (request_channel_data sdi devc2 s2)))))"

subsection \<open>\<^verbatim>\<open>keysight_read_header\<close> (protocol.c, lines 208-262)\<close>

text \<open>
  The two places that try to read header bytes (lines 217-225 and 238-246) are one
  definition: while fewer than \<open>target\<close> header bytes are there, the missing ones are
  requested and those that came are stored behind the ones already there.  \<open>Inl\<close> is the
  read error.
\<close>

definition read_header_bytes ::
  "uint64_t \<Rightarrow> dev_context \<Rightarrow> sr_scpi_dev_inst \<Rightarrow> sr_scpi_dev_inst + dev_context \<times> sr_scpi_dev_inst" where
  "read_header_bytes target devc scpi =
     (if num_header_bytes devc < target then
        (case sr_scpi_read_data (ucast (target - num_header_bytes devc)) scpi of
           (ret, bs, scpi1) \<Rightarrow>
             if ret <s 0 then Inl scpi1
             else Inr (devc\<lparr>buffer := store (buffer devc) (unat (num_header_bytes devc)) bs,
                             num_header_bytes := num_header_bytes devc + scast ret\<rparr>, scpi1))
      else Inr (devc, scpi))"

text \<open>
  Lines 237-261: the digits of the length are read and parsed.  The string given to
  \<^verbatim>\<open>parse_int\<close> starts at \<^verbatim>\<open>buf + 2\<close> and ends before the first NUL, the one stored at
  \<^verbatim>\<open>buf[header_length]\<close> or one among the bytes received.
\<close>

definition read_header_length ::
  "size_t \<Rightarrow> dev_context \<Rightarrow> sr_scpi_dev_inst \<Rightarrow> cint \<times> dev_context \<times> sr_scpi_dev_inst" where
  "read_header_length header_length devc scpi =
     (case read_header_bytes header_length devc scpi of
        Inl scpi2 \<Rightarrow> (SR_ERR, devc, scpi2)
      | Inr (devc2, scpi2) \<Rightarrow>
          if num_header_bytes devc2 < header_length then (0, devc2, scpi2)
          else
            (let devc3 = devc2\<lparr>buffer := (buffer devc2)(unat header_length := CHR 0x00)\<rparr>
             in case parse_int (c_string (map (buffer devc3) [2..<unat header_length])) of
                  None \<Rightarrow> (- 1, devc3, scpi2)
                | Some ret \<Rightarrow> (ret, devc3, scpi2)))"

text \<open>
  The function is static and is called with a device context that is not \<^verbatim>\<open>NULL\<close>; it
  takes the context and the connection of its \<^verbatim>\<open>sdi\<close>.  The result is the \<^verbatim>\<open>int\<close> it
  returns: \<^verbatim>\<open>SR_ERR\<close> or \<open>- 1\<close> for an error, 0 for a header that is not complete, and
  the parsed length otherwise.
\<close>

definition keysight_read_header ::
  "dev_context \<Rightarrow> sr_scpi_dev_inst \<Rightarrow> cint \<times> dev_context \<times> sr_scpi_dev_inst" where
  "keysight_read_header devc scpi =
     (case read_header_bytes 2 devc scpi of
        Inl scpi1 \<Rightarrow> (SR_ERR, devc, scpi1)
      | Inr (devc1, scpi1) \<Rightarrow>
          if num_header_bytes devc1 < 2 then (0, devc1, scpi1)
          else if buffer devc1 0 \<noteq> CHR ''#'' \<or> \<not> isdigit (buffer devc1 1)
                  \<or> buffer devc1 1 = CHR ''0''
          then (SR_ERR, devc1, scpi1)
          else read_header_length (2 + of_char (buffer devc1 1) - 48) devc1 scpi1)"

subsection \<open>\<^verbatim>\<open>keysight_receive\<close> (protocol.c, lines 264-426)\<close>

text \<open>Lines 320-322 and 339-341: the capture is aborted.\<close>

definition abort_capture :: "sr_dev_inst \<Rightarrow> dev_context \<Rightarrow> sr_scpi_dev_inst \<Rightarrow> sr_dev_inst" where
  "abort_capture sdi devc scpi =
     sdi\<lparr>priv := Some (devc\<lparr>state := STATE_IDLE\<rparr>),
         conn := sr_dev_acquisition_stop (std_session_send_df_frame_end scpi)\<rparr>"

text \<open>Line 355, the value of one sample.\<close>

definition analog_sample :: "fpu \<Rightarrow> cint \<Rightarrow> real \<Rightarrow> real \<Rightarrow> char \<Rightarrow> real" where
  "analog_sample fp vref origin vdiv b =
     to_float fp (dmul fp (dsub fp (real_of_int (sint (of_char b - vref))) origin) vdiv)"

text \<open>Lines 356-357, the digits of an analog packet.\<close>

definition analog_digits :: "fpu \<Rightarrow> real \<Rightarrow> int" where
  "analog_digits fp vdiv =
     (let vdivlog = log10f fp vdiv in - c_trunc vdivlog + (if vdivlog < 0 then 1 else 0))"

text \<open>Lines 349-376: the chunk of \<open>len\<close> bytes in the buffer is converted and sent.\<close>

definition send_chunk ::
  "fpu \<Rightarrow> sr_channel \<Rightarrow> cint \<Rightarrow> dev_context \<Rightarrow> sr_scpi_dev_inst \<Rightarrow> dev_context \<times> sr_scpi_dev_inst" where
  "send_chunk fp ch len devc scpi =
     (if ctype ch = SR_CHANNEL_ANALOG then
        (let vref = vert_reference devc (index ch);
             vdiv = vert_inc devc (index ch);
             origin = vert_origin devc (index ch);
             offset = vert_offset devc (index ch);
             devc1 = devc\<lparr>data := (\<lambda>i. if int i < sint len
                                         then analog_sample fp vref origin vdiv (buffer devc i)
                                         else data devc i)\<rparr>;
             digits = analog_digits fp vdiv
         in (devc1,
             sr_session_send (SR_DF_ANALOG ch (map (data devc1) [0..<nat (sint len)]) digits) scpi))
      else
        (devc, sr_session_send (SR_DF_LOGIC (map (buffer devc) [0..<nat (sint len)]) 1) scpi))"

text \<open>Lines 378-394: a block that is complete is closed.\<close>

definition finish_block :: "dev_context \<Rightarrow> sr_scpi_dev_inst \<Rightarrow> dev_context \<times> sr_scpi_dev_inst" where
  "finish_block devc scpi =
     (if num_block_read devc = num_block_bytes devc then
        (case sr_scpi_read_data 1 scpi of (_, bs, scpi1) \<Rightarrow>
           (devc\<lparr>buffer := store (buffer devc) 0 bs,
                 num_header_bytes := 0, num_block_bytes := 0, num_block_read := 0\<rparr>,
            sr_scpi_read_complete scpi1))
      else (devc, scpi))"

text \<open>Lines 396-425: the end of the channel's data, the next channel or the next frame.\<close>

definition finish_channel ::
  "sr_dev_inst \<Rightarrow> sr_channel list \<Rightarrow> cint \<Rightarrow> dev_context \<Rightarrow> sr_scpi_dev_inst \<Rightarrow> fault + (cint \<times> sr_dev_inst)" where
  "finish_channel sdi nxt len devc scpi =
     (let devc1 = devc\<lparr>num_channel_bytes := num_channel_bytes devc + scast len\<rparr> in
      if num_channel_bytes devc1 < scast (num_channel_bytes_total devc1)
      then Inr (TRUE, sdi\<lparr>priv := Some devc1, conn := scpi\<rparr>)
      else if nxt \<noteq> [] then
        (case keysight_channel_start (sdi\<lparr>priv := Some (devc1\<lparr>channel_entry := nxt\<rparr>), conn := scpi\<rparr>) of
           Inl f \<Rightarrow> Inl f
         | Inr (_, sdi1) \<Rightarrow> Inr (TRUE, sdi1))
      else
        (let scpi1 = std_session_send_df_frame_end scpi;
             devc2 = devc1\<lparr>state := STATE_IDLE\<rparr>;
             devc3 = devc2\<lparr>num_frames := num_frames devc2 + 1\<rparr>;
             devc4 = devc3\<lparr>channel_entry := enabled_channels devc3\<rparr>
         in case keysight_capture_start (sdi\<lparr>priv := Some devc4, conn := scpi1\<rparr>) of
              (_, sdi1) \<Rightarrow>
                Inr (TRUE, sdi1\<lparr>conn := std_session_send_df_frame_begin (conn sdi1)\<rparr>)))"

text \<open>Lines 330-332: the number of bytes to request, an \<^verbatim>\<open>int\<close>.\<close>

definition request_len :: "dev_context \<Rightarrow> cint" where
  "request_len devc =
     (let len = (ucast (num_block_bytes devc - num_block_read devc) :: cint)
      in if ACQ_BUFFER_SIZE <s len then ACQ_BUFFER_SIZE else len)"

text \<open>Lines 335-425: a chunk of the block's payload is read, sent and counted.\<close>

definition read_block ::
  "fpu \<Rightarrow> sr_dev_inst \<Rightarrow> sr_channel \<Rightarrow> sr_channel list \<Rightarrow> dev_context \<Rightarrow> sr_scpi_dev_inst
     \<Rightarrow> fault + (cint \<times> sr_dev_inst)" where
  "read_block fp sdi ch nxt devc scpi =
     (case sr_scpi_read_data (request_len devc) scpi of (len, bs, scpi1) \<Rightarrow>
           (let devc1 = devc\<lparr>buffer := store (buffer devc) 0 bs\<rparr> in
            if len = - 1 then Inr (TRUE, abort_capture sdi devc1 scpi1)
            else
              (let devc2 = devc1\<lparr>num_block_read := num_block_read devc1 + scast len\<rparr> in
               case send_chunk fp ch len devc2 scpi1 of (devc3, scpi3) \<Rightarrow>
               case finish_block devc3 scpi3 of (devc4, scpi4) \<Rightarrow>
                 finish_channel sdi nxt len devc4 scpi4)))"

text \<open>
  Lines 312-328: with no block in progress a header is expected.  \<open>Inl\<close> is the
  \<^verbatim>\<open>sdi\<close> with which the callback returns \<^verbatim>\<open>TRUE\<close> at once (header not complete, or
  capture aborted); \<open>Inr\<close> is the context and the connection with which it goes on to
  read the block's payload.
\<close>

definition start_block ::
  "sr_dev_inst \<Rightarrow> dev_context \<Rightarrow> sr_scpi_dev_inst \<Rightarrow> sr_dev_inst + dev_context \<times> sr_scpi_dev_inst" where
  "start_block sdi devc scpi =
     (if num_block_bytes devc = 0 then
        (case keysight_read_header devc scpi of (len, devc1, scpi1) \<Rightarrow>
           if len = 0 then Inl (sdi\<lparr>priv := Some devc1, conn := scpi1\<rparr>)
           else if len = - 1 then Inl (abort_capture sdi devc1 scpi1)
           else Inr (devc1\<lparr>num_block_bytes := scast len, num_block_read := 0\<rparr>, scpi1))
      else Inr (devc, scpi))"

text \<open>
  The callback.  \<open>cb_data\<close> is the \<^verbatim>\<open>sdi\<close> or \<^verbatim>\<open>NULL\<close>; \<^verbatim>\<open>fd\<close> is not used.  The
  \<^verbatim>\<open>default\<close> branch of the \<^verbatim>\<open>switch\<close> has no value of \<open>state_e\<close> to take it.  The result
  is the returned \<^verbatim>\<open>int\<close> and the \<^verbatim>\<open>sdi\<close> after the call, or the fault of line 310 or
  line 145 when the channel cursor is \<^verbatim>\<open>NULL\<close>.
\<close>

definition keysight_receive ::
  "fpu \<Rightarrow> cint \<Rightarrow> cint \<Rightarrow> sr_dev_inst option \<Rightarrow> fault + (cint \<times> sr_dev_inst option)" where
  "keysight_receive fp fd revents cb_data =
     (case cb_data of
        None \<Rightarrow> Inr (TRUE, cb_data)
      | Some sdi \<Rightarrow>
     (case priv sdi of
        None \<Rightarrow> Inr (TRUE, cb_data)
      | Some devc \<Rightarrow>
     (let scpi = conn sdi in
      if \<not> (revents = G_IO_IN \<or> revents = 0) then Inr (TRUE, cb_data)
      else
        (case state devc of
           STATE_IDLE \<Rightarrow> Inr (TRUE, cb_data)
         | STATE_DIGITIZING \<Rightarrow>
             (case keysight_channel_start sdi of
                Inl f \<Rightarrow> Inl f
              | Inr (ret, sdi1) \<Rightarrow>
                  if ret \<noteq> SR_OK then Inr (TRUE, Some sdi1) else Inr (TRUE, Some sdi1))
         | STATE_READING_DATA \<Rightarrow>
             (case channel_entry devc of
                [] \<Rightarrow> Inl NullPointer
              | ch # nxt \<Rightarrow>
                  (case start_block sdi devc scpi of
                     Inl sdi1 \<Rightarrow> Inr (TRUE, Some sdi1)
                   | Inr (devc2, scpi2) \<Rightarrow>
                       (case read_block fp sdi ch nxt devc2 scpi2 of
                          Inl f \<Rightarrow> Inl f
                        | Inr (ret, sdi1) \<Rightarrow> Inr (ret, Some sdi1))))))))"

text \<open>
  The event loop, as far as a header is concerned: the callback is called again, once for
  each readiness event, as long as the header is not complete.  \<open>expect_block n\<close> is what
  \<open>n\<close> events make of lines 312-328.
\<close>

fun expect_block ::
  "nat \<Rightarrow> sr_dev_inst \<Rightarrow> dev_context \<Rightarrow> sr_scpi_dev_inst \<Rightarrow> sr_dev_inst + dev_context \<times> sr_scpi_dev_inst" where
  "expect_block 0 sdi devc scpi = Inl (sdi\<lparr>priv := Some devc, conn := scpi\<rparr>)"
| "expect_block (Suc n) sdi devc scpi =
     (case start_block sdi devc scpi of
        Inr r \<Rightarrow> Inr r
      | Inl sdi1 \<Rightarrow>
          (case priv sdi1 of
             None \<Rightarrow> Inl sdi1
           | Some devc1 \<Rightarrow>
               if state devc1 = STATE_READING_DATA then expect_block n sdi1 devc1 (conn sdi1)
               else Inl sdi1))"

text \<open>
  What \<^verbatim>\<open>strtol\<close> converts in full: white space, one optional sign, one or more decimal
  digits, and nothing behind them.
\<close>

definition strtol_form :: "string \<Rightarrow> bool" where
  "strtol_form s =
     (let s1 = dropWhile isspace s;
          s2 = (case s1 of [] \<Rightarrow> [] | c # r \<Rightarrow> if c = CHR ''-'' \<or> c = CHR ''+'' then r else s1)
      in s2 \<noteq> [] \<and> list_all isdigit s2)"

subsection \<open>Reading the trace\<close>

text \<open>
  The events of setting a channel or a capture up, the packets that carry samples, and
  the number of samples a packet carries.
\<close>

fun setup_event :: "event \<Rightarrow> bool" where
  "setup_event (Send _) = True"
| "setup_event GetOpc = True"
| "setup_event (Query _) = True"
| "setup_event ReadBegin = True"
| "setup_event _ = False"

fun sample_event :: "event \<Rightarrow> bool" where
  "sample_event (SessionSend (SR_DF_ANALOG _ _ _)) = True"
| "sample_event (SessionSend (SR_DF_LOGIC _ _)) = True"
| "sample_event _ = False"

fun frame_event :: "event \<Rightarrow> bool" where
  "frame_event (SessionSend SR_DF_FRAME_BEGIN) = True"
| "frame_event (SessionSend SR_DF_FRAME_END) = True"
| "frame_event _ = False"

text \<open>
  \<open>appended P s s'\<close>: the connection \<open>s'\<close> is \<open>s\<close> after some events that all
  satisfy \<open>P\<close>, with no byte read.
\<close>

definition appended :: "(event \<Rightarrow> bool) \<Rightarrow> sr_scpi_dev_inst \<Rightarrow> sr_scpi_dev_inst \<Rightarrow> bool" where
  "appended P s s' \<longleftrightarrow>
     (\<exists>evs. trace s' = trace s @ evs \<and> list_all P evs) \<and> wire s' = wire s \<and> reads s' = reads s"

text \<open>The instrument's next reply, \<open>Failed\<close> when it has none.\<close>

definition peek :: "sr_scpi_dev_inst \<Rightarrow> reply" where
  "peek s = (case replies s of [] \<Rightarrow> Failed | r # _ \<Rightarrow> r)"

text \<open>The bytes that a read of at most \<open>maxlen\<close> bytes delivers when \<open>k\<close> are ready.\<close>

definition chunk :: "nat \<Rightarrow> cint \<Rightarrow> sr_scpi_dev_inst \<Rightarrow> string" where
  "chunk k maxlen scpi = take (min k (nat (sint maxlen))) (wire scpi)"

text \<open>The packet that carries the chunk \<open>bs\<close> of the channel \<open>ch\<close> (lines 349-376).\<close>

definition chunk_packet :: "fpu \<Rightarrow> sr_channel \<Rightarrow> dev_context \<Rightarrow> string \<Rightarrow> packet" where
  "chunk_packet fp ch devc bs =
     (if ctype ch = SR_CHANNEL_ANALOG then
        SR_DF_ANALOG ch
          (map (analog_sample fp (vert_reference devc (index ch)) (vert_origin devc (index ch))
                  (vert_inc devc (index ch))) bs)
          (analog_digits fp (vert_inc devc (index ch)))
      else SR_DF_LOGIC bs 1)"

text \<open>
  What a call leaves behind, for the examples: the returned value, the state, the number of
  frames and the trace.
\<close>

definition summary ::
  "fault + cint \<times> sr_dev_inst option \<Rightarrow> (cint \<times> state_e \<times> uint64_t \<times> event list) option" where
  "summary r =
     (case r of
        Inr (ret, Some sdi) \<Rightarrow>
          (case priv sdi of
             Some devc \<Rightarrow> Some (ret, state devc, num_frames devc, trace (conn sdi))
           | None \<Rightarrow> None)
      | _ \<Rightarrow> None)"

subsection \<open>An example capture\<close>

text \<open>
  A context in the second frame of a capture with a frame limit of 2: an analog channel and
  a pod are enabled, the pod is being read, and no block is in progress.
\<close>

definition example_analog :: sr_channel where
  "example_analog = \<lparr>index = 0, ctype = SR_CHANNEL_ANALOG\<rparr>"

definition example_pod :: sr_channel where
  "example_pod = \<lparr>index = 4, ctype = SR_CHANNEL_LOGIC\<rparr>"

definition example_devc :: dev_context where
  "example_devc =
     \<lparr>enabled_channels = [example_analog, example_pod], limit_frames = 2,
      vert_reference = (\<lambda>_. 128), vert_origin = (\<lambda>_. 0), vert_offset = (\<lambda>_. 0),
      vert_inc = (\<lambda>_. 1 / 20), num_frames = 1, channel_entry = [example_pod],
      num_channel_bytes_total = 1400, num_channel_bytes = 0, num_header_bytes = 0,
      num_block_bytes = 0, num_block_read = 0, state = STATE_READING_DATA,
      buffer = (\<lambda>_. CHR 0x00), data = (\<lambda>_. 0)\<rparr>"

definition example_scpi :: sr_scpi_dev_inst where
  "example_scpi = \<lparr>wire = [], reads = [], replies = [], trace = []\<rparr>"

section \<open>Proofs\<close>

lemmas c_consts = SR_OK_def SR_ERR_def TRUE_def G_IO_IN_def ACQ_BUFFER_SIZE_def

subsection \<open>Small words\<close>

lemma sint_small: "n \<le> 65536 \<Longrightarrow> sint (of_nat n :: 32 word) = int n"
  by (simp add: signed_of_nat signed_take_bit_int_eq_self)

lemma neq_m1: "n \<le> 65536 \<Longrightarrow> (of_nat n :: 32 word) \<noteq> - 1"
proof
  assume a: "n \<le> 65536" and b: "(of_nat n :: 32 word) = - 1"
  have "sint (of_nat n :: 32 word) = int n" using a by (rule sint_small)
  with b show False by simp
qed

lemma scast_small: "n \<le> 65536 \<Longrightarrow> (scast (of_nat n :: 32 word) :: 64 word) = of_nat n"
  by (simp add: signed_of_nat signed_take_bit_int_eq_self)

lemma request_len_le: "sint (request_len d) \<le> 65536"
  by (simp add: request_len_def Let_def ACQ_BUFFER_SIZE_def word_sless_alt)

subsection \<open>The transport\<close>

lemma next_reply_eq: "next_reply s = (peek s, s\<lparr>replies := tl (replies s)\<rparr>)"
  by (cases s) (simp add: next_reply_def peek_def split: list.splits)

lemma send_eq:
  "sr_scpi_send c s = (if peek s = Succeeded then SR_OK else SR_ERR,
                       s\<lparr>trace := trace s @ [Send c], replies := tl (replies s)\<rparr>)"
  by (simp add: sr_scpi_send_def next_reply_eq emit_def peek_def split: reply.splits)

lemma opc_eq:
  "sr_scpi_get_opc s = (if peek s = Succeeded then SR_OK else SR_ERR,
                       s\<lparr>trace := trace s @ [GetOpc], replies := tl (replies s)\<rparr>)"
  by (simp add: sr_scpi_get_opc_def next_reply_eq emit_def peek_def split: reply.splits)

lemma read_begin_eq:
  "sr_scpi_read_begin s = (if peek s = Succeeded then SR_OK else SR_ERR,
                       s\<lparr>trace := trace s @ [ReadBegin], replies := tl (replies s)\<rparr>)"
  by (simp add: sr_scpi_read_begin_def next_reply_eq emit_def peek_def split: reply.splits)

lemma get_float_eq:
  "sr_scpi_get_float q s = (case peek s of Float v \<Rightarrow> Some v | _ \<Rightarrow> None,
                       s\<lparr>trace := trace s @ [Query q], replies := tl (replies s)\<rparr>)"
  by (simp add: sr_scpi_get_float_def next_reply_eq emit_def peek_def split: reply.splits)

lemma get_int_eq:
  "sr_scpi_get_int q s = (case peek s of Integer v \<Rightarrow> Some v | _ \<Rightarrow> None,
                       s\<lparr>trace := trace s @ [Query q], replies := tl (replies s)\<rparr>)"
  by (simp add: sr_scpi_get_int_def next_reply_eq emit_def peek_def split: reply.splits)

lemma read_data_err:
  "reads scpi = RdErr # rs \<Longrightarrow>
   sr_scpi_read_data maxlen scpi = (- 1, [], scpi\<lparr>reads := rs, trace := trace scpi @ [ReadData maxlen]\<rparr>)"
  by (simp add: sr_scpi_read_data_def emit_def SR_ERR_def)

lemma read_data_avail:
  "reads scpi = RdAvail k # rs \<Longrightarrow>
   sr_scpi_read_data maxlen scpi =
     (of_nat (length (chunk k maxlen scpi)), chunk k maxlen scpi,
      scpi\<lparr>reads := rs, trace := trace scpi @ [ReadData maxlen],
           wire := drop (length (chunk k maxlen scpi)) (wire scpi)\<rparr>)"
  by (simp add: sr_scpi_read_data_def emit_def Let_def chunk_def)

lemma read_data_trace: "trace (snd (snd (sr_scpi_read_data m s))) = trace s @ [ReadData m]"
  by (simp add: sr_scpi_read_data_def emit_def Let_def split: list.splits rd.splits)


lemma chunk_le: "length (chunk k (request_len d) scpi) \<le> 65536"
proof -
  have "length (chunk k (request_len d) scpi) \<le> nat (sint (request_len d))"
    by (simp add: chunk_def)
  also have "\<dots> \<le> 65536" using request_len_le [of d] by simp
  finally show ?thesis .
qed

lemma store_Nil: "store buf off [] = buf"
  by (auto simp add: store_def fun_eq_iff)

lemma map_store_0: "map (store buf 0 bs) [0..<length bs] = bs"
  by (rule nth_equalityI) (simp_all add: store_def)

subsection \<open>Trace extension\<close>

lemma appended_refl: "appended P s s"
  by (simp add: appended_def)

lemma appended_trans: "appended P s s1 \<Longrightarrow> appended P s1 s2 \<Longrightarrow> appended P s s2"
  by (auto simp add: appended_def)

lemma config_set_appended: "appended setup_event s (snd (keysight_config_set c s))"
  by (simp add: keysight_config_set_def send_eq opc_eq appended_def)

lemma first_frame_setup_props:
  "appended setup_event s (snd (snd (first_frame_setup ch d s)))"
  "state (fst (snd (first_frame_setup ch d s))) = state d"
  "channel_entry (fst (snd (first_frame_setup ch d s))) = channel_entry d"
  "enabled_channels (fst (snd (first_frame_setup ch d s))) = enabled_channels d"
  "num_frames (fst (snd (first_frame_setup ch d s))) = num_frames d"
  "limit_frames (fst (snd (first_frame_setup ch d s))) = limit_frames d"
  by (simp_all add: first_frame_setup_def keysight_config_set_def send_eq opc_eq get_float_eq get_int_eq
      appended_def Let_def split: reply.splits)

lemma request_channel_data_props:
  assumes "request_channel_data sdi d s = (r, sdi')"
  shows "\<exists>d'. priv sdi' = Some d'
       \<and> appended setup_event s (conn sdi')
       \<and> state d' = (if r = SR_OK then STATE_READING_DATA else state d)
       \<and> channel_entry d' = channel_entry d \<and> enabled_channels d' = enabled_channels d
       \<and> num_frames d' = num_frames d \<and> limit_frames d' = limit_frames d"
proof (cases "peek s")
  case (Integer p)
  then show ?thesis
    using assms
    by (auto simp add: request_channel_data_def get_int_eq send_eq read_begin_eq appended_def Let_def
        c_consts split: if_splits)
qed (use assms in \<open>auto simp add: request_channel_data_def get_int_eq appended_def c_consts\<close>)

lemma channel_start_unfold:
  assumes "priv sdi = Some d" "channel_entry d = ch # rest"
    and "keysight_config_set (if ctype ch = SR_CHANNEL_ANALOG then WAV_SOUR_CHAN (index ch + 1)
              else WAV_SOUR_POD (if index ch < 8 then 1 else 2)) (conn sdi) = (r1, s1)"
    and "(if num_frames d = 0 then first_frame_setup ch d s1 else (SR_OK, d, s1)) = (r2, d2, s2)"
  shows "keysight_channel_start sdi =
      (if r1 \<noteq> SR_OK then Inr (SR_ERR, sdi\<lparr>conn := s1\<rparr>)
       else if r2 \<noteq> SR_OK then Inr (SR_ERR, sdi\<lparr>priv := Some d2, conn := s2\<rparr>)
       else Inr (request_channel_data sdi d2 s2))"
  unfolding keysight_channel_start_def Let_def assms option.case list.case prod.case
  by (rule refl)

lemma first_frame_or_not:
  assumes "(if num_frames d = 0 then first_frame_setup ch d s1 else (SR_OK, d, s1)) = (r2, d2, s2)"
  shows "appended setup_event s1 s2" "state d2 = state d" "channel_entry d2 = channel_entry d"
    "enabled_channels d2 = enabled_channels d" "num_frames d2 = num_frames d"
    "limit_frames d2 = limit_frames d"
proof -
  show "appended setup_event s1 s2"
    using assms first_frame_setup_props(1) [where s = s1 and ch = ch and d = d]
    by (cases "num_frames d = 0") (simp_all add: appended_refl)
  show "state d2 = state d"
    using assms first_frame_setup_props(2) [where s = s1 and ch = ch and d = d]
    by (cases "num_frames d = 0") simp_all
  show "channel_entry d2 = channel_entry d"
    using assms first_frame_setup_props(3) [where s = s1 and ch = ch and d = d]
    by (cases "num_frames d = 0") simp_all
  show "enabled_channels d2 = enabled_channels d"
    using assms first_frame_setup_props(4) [where s = s1 and ch = ch and d = d]
    by (cases "num_frames d = 0") simp_all
  show "num_frames d2 = num_frames d"
    using assms first_frame_setup_props(5) [where s = s1 and ch = ch and d = d]
    by (cases "num_frames d = 0") simp_all
  show "limit_frames d2 = limit_frames d"
    using assms first_frame_setup_props(6) [where s = s1 and ch = ch and d = d]
    by (cases "num_frames d = 0") simp_all
qed

lemma channel_start_props:
  assumes "priv sdi = Some d" "channel_entry d \<noteq> []"
  shows "\<exists>r sdi' d'. keysight_channel_start sdi = Inr (r, sdi') \<and> priv sdi' = Some d'
           \<and> appended setup_event (conn sdi) (conn sdi')
           \<and> state d' = (if r = SR_OK then STATE_READING_DATA else state d)
           \<and> channel_entry d' = channel_entry d \<and> enabled_channels d' = enabled_channels d
           \<and> num_frames d' = num_frames d \<and> limit_frames d' = limit_frames d"
proof -
  obtain ch rest where ce: "channel_entry d = ch # rest"
    using assms(2) by (cases "channel_entry d") auto
  obtain r1 s1 where cs: "keysight_config_set (if ctype ch = SR_CHANNEL_ANALOG then WAV_SOUR_CHAN (index ch + 1)
              else WAV_SOUR_POD (if index ch < 8 then 1 else 2)) (conn sdi) = (r1, s1)"
    by (rule prod.exhaust)
  have a1: "appended setup_event (conn sdi) s1"
    using config_set_appended [where s = "conn sdi"] cs by (metis snd_conv)
  obtain r2 d2 s2 where ffs:
    "(if num_frames d = 0 then first_frame_setup ch d s1 else (SR_OK, d, s1)) = (r2, d2, s2)"
    by (rule prod_cases3)
  note f2 = first_frame_or_not [OF ffs]
  note unfold = channel_start_unfold [OF assms(1) ce cs ffs]
  show ?thesis
  proof (cases "r1 \<noteq> SR_OK")
    case True
    have "keysight_channel_start sdi = Inr (SR_ERR, sdi\<lparr>conn := s1\<rparr>)"
      using unfold True by simp
    then show ?thesis using a1 assms(1) by (simp add: c_consts)
  next
    case r1: False
    show ?thesis
    proof (cases "r2 \<noteq> SR_OK")
      case True
      have "keysight_channel_start sdi = Inr (SR_ERR, sdi\<lparr>priv := Some d2, conn := s2\<rparr>)"
        using unfold True r1 by simp
      then show ?thesis
        using appended_trans [OF a1 f2(1)] f2(2-) by (simp add: c_consts)
    next
      case False
      obtain r sdi' where rcd0: "request_channel_data sdi d2 s2 = (r, sdi')"
        by (rule prod.exhaust)
      obtain d' where rcd: "priv sdi' = Some d'"
        "appended setup_event s2 (conn sdi')"
        "state d' = (if r = SR_OK then STATE_READING_DATA else state d2)"
        "channel_entry d' = channel_entry d2" "enabled_channels d' = enabled_channels d2"
        "num_frames d' = num_frames d2" "limit_frames d' = limit_frames d2"
        using request_channel_data_props [OF rcd0] by (elim exE conjE) (rule that)
      have ap: "appended setup_event (conn sdi) (conn sdi')"
        by (rule appended_trans [OF a1 appended_trans [OF f2(1) rcd(2)]])
      have "keysight_channel_start sdi = Inr (r, sdi')"
        using unfold False r1 rcd0 by simp
      then show ?thesis
        using rcd(1,3-) ap f2(2-) by simp
    qed
  qed
qed

lemma appended_mono: "appended P s s' \<Longrightarrow> (\<And>e. P e \<Longrightarrow> Q e) \<Longrightarrow> appended Q s s'"
  by (auto simp add: appended_def list_all_iff)

lemma capture_start_eq:
  "priv sdi = Some d \<Longrightarrow>
   keysight_capture_start sdi =
     (if peek (conn sdi) = Succeeded then SR_OK else TRUE,
      sdi\<lparr>priv := Some (if peek (conn sdi) = Succeeded then d\<lparr>state := STATE_DIGITIZING\<rparr> else d),
          conn := (conn sdi)\<lparr>trace := trace (conn sdi) @ [Send DIGITIZE_OPC],
                             replies := tl (replies (conn sdi))\<rparr>\<rparr>)"
  by (cases sdi) (simp add: keysight_capture_start_def send_eq c_consts)

lemma finish_block_trace:
  "trace (snd (finish_block d s)) =
     trace s @ (if num_block_read d = num_block_bytes d then [ReadData 1, ReadComplete] else [])"
  using read_data_trace [of 1 s]
  by (auto simp add: finish_block_def sr_scpi_read_complete_def emit_def split: prod.splits)




lemma finish_channel_continue:
  assumes "num_channel_bytes d + scast len < scast (num_channel_bytes_total d)"
  shows "finish_channel sdi nxt len d s =
           Inr (TRUE, sdi\<lparr>priv := Some (d\<lparr>num_channel_bytes := num_channel_bytes d + scast len\<rparr>), conn := s\<rparr>)"
  using assms by (simp add: finish_channel_def)

lemma finish_channel_frame_end:
  assumes "\<not> num_channel_bytes d + scast len < scast (num_channel_bytes_total d)"
  shows "finish_channel sdi [] len d s =
           Inr (TRUE,
                sdi\<lparr>priv := Some (d\<lparr>num_channel_bytes := num_channel_bytes d + scast len,
                                     state := (if peek s = Succeeded then STATE_DIGITIZING else STATE_IDLE),
                                     num_frames := num_frames d + 1,
                                     channel_entry := enabled_channels d\<rparr>),
                    conn := s\<lparr>trace := trace s @ [SessionSend SR_DF_FRAME_END, Send DIGITIZE_OPC,
                                                   SessionSend SR_DF_FRAME_BEGIN],
                              replies := tl (replies s)\<rparr>\<rparr>)"
  using assms
  by (simp add: finish_channel_def Let_def capture_start_eq std_session_send_df_frame_end_def
      std_session_send_df_frame_begin_def sr_session_send_def emit_def peek_def)

lemma finish_channel_next:
  assumes "\<not> num_channel_bytes d + scast len < scast (num_channel_bytes_total d)" "nxt \<noteq> []"
  shows "\<exists>r sdi' d'. finish_channel sdi nxt len d s = Inr (TRUE, sdi') \<and> priv sdi' = Some d'
           \<and> keysight_channel_start
                (sdi\<lparr>priv := Some (d\<lparr>num_channel_bytes := num_channel_bytes d + scast len,
                                      channel_entry := nxt\<rparr>), conn := s\<rparr>) = Inr (r, sdi')
           \<and> appended setup_event s (conn sdi')
           \<and> state d' = (if r = SR_OK then STATE_READING_DATA else state d)
           \<and> channel_entry d' = nxt \<and> enabled_channels d' = enabled_channels d
           \<and> num_frames d' = num_frames d \<and> limit_frames d' = limit_frames d"
proof -
  let ?sdi = "sdi\<lparr>priv := Some (d\<lparr>num_channel_bytes := num_channel_bytes d + scast len,
                                      channel_entry := nxt\<rparr>), conn := s\<rparr>"
  obtain r sdi' d' where cs: "keysight_channel_start ?sdi = Inr (r, sdi')" "priv sdi' = Some d'"
    "appended setup_event (conn ?sdi) (conn sdi')"
    "state d' = (if r = SR_OK then STATE_READING_DATA else state d)"
    "channel_entry d' = nxt" "enabled_channels d' = enabled_channels d"
    "num_frames d' = num_frames d" "limit_frames d' = limit_frames d"
    using channel_start_props [of ?sdi "d\<lparr>num_channel_bytes := num_channel_bytes d + scast len,
                                      channel_entry := nxt\<rparr>"] assms(2)
    by auto
  have "finish_channel sdi nxt len d s = Inr (TRUE, sdi')"
    using assms cs(1) by (simp add: finish_channel_def)
  then show ?thesis using cs by auto
qed

lemma finish_channel_props:
  "\<exists>sdi' d'. finish_channel sdi nxt len d s = Inr (TRUE, sdi') \<and> priv sdi' = Some d'
      \<and> appended (\<lambda>e. setup_event e \<or> frame_event e) s (conn sdi')"
proof (cases "num_channel_bytes d + scast len < scast (num_channel_bytes_total d)")
  case True
  then show ?thesis by (simp add: finish_channel_continue appended_refl)
next
  case False
  show ?thesis
  proof (cases "nxt = []")
    case True
    then show ?thesis using False by (simp add: finish_channel_frame_end appended_def)
  next
    case nxt: False
    from finish_channel_next [OF False nxt, of sdi s]
    show ?thesis by (blast intro: appended_mono)
  qed
qed

lemma read_block_avail:
  assumes "reads scpi2 = RdAvail k # rs"
  shows "read_block fp sdi ch nxt devc2 scpi2 =
     (let bs = chunk k (request_len devc2) scpi2;
          devc' = devc2\<lparr>buffer := store (buffer devc2) 0 bs,
                         num_block_read := num_block_read devc2 + of_nat (length bs)\<rparr>;
          scpi' = scpi2\<lparr>reads := rs, trace := trace scpi2 @ [ReadData (request_len devc2)],
                         wire := drop (length bs) (wire scpi2)\<rparr>
      in case send_chunk fp ch (of_nat (length bs)) devc' scpi' of (devc3, scpi3) \<Rightarrow>
         case finish_block devc3 scpi3 of (devc4, scpi4) \<Rightarrow>
           finish_channel sdi nxt (of_nat (length bs)) devc4 scpi4)"
  using assms chunk_le [of k devc2 scpi2]
  by (simp add: read_block_def read_data_avail Let_def neq_m1 scast_small)

lemma send_chunk_eq:
  assumes "length bs \<le> 65536" "buffer devc = store buf 0 bs"
  shows "send_chunk fp ch (of_nat (length bs)) devc scpi =
           (if ctype ch = SR_CHANNEL_ANALOG then
              devc\<lparr>data := (\<lambda>i. if i < length bs
                                then analog_sample fp (vert_reference devc (index ch))
                                       (vert_origin devc (index ch)) (vert_inc devc (index ch)) (buffer devc i)
                                else data devc i)\<rparr>
            else devc,
            scpi\<lparr>trace := trace scpi @ [SessionSend (chunk_packet fp ch devc bs)]\<rparr>)"
proof -
  have "map (\<lambda>i. if i < length bs then analog_sample fp (vert_reference devc (index ch))
                                       (vert_origin devc (index ch)) (vert_inc devc (index ch)) (buffer devc i)
                  else data devc i) [0..<length bs]
        = map (analog_sample fp (vert_reference devc (index ch))
                                       (vert_origin devc (index ch)) (vert_inc devc (index ch))) bs"
    by (rule nth_equalityI) (simp_all add: store_def assms(2))
  moreover have "map (buffer devc) [0..<length bs] = bs"
    by (simp add: assms(2) map_store_0)
  ultimately show ?thesis
    using assms(1)
    by (simp add: send_chunk_def sint_small sr_session_send_def emit_def Let_def chunk_packet_def)
qed

lemma send_chunk_fields:
  "state (fst (send_chunk fp ch len d s)) = state d"
  "channel_entry (fst (send_chunk fp ch len d s)) = channel_entry d"
  "enabled_channels (fst (send_chunk fp ch len d s)) = enabled_channels d"
  "num_frames (fst (send_chunk fp ch len d s)) = num_frames d"
  "limit_frames (fst (send_chunk fp ch len d s)) = limit_frames d"
  "num_channel_bytes (fst (send_chunk fp ch len d s)) = num_channel_bytes d"
  "num_channel_bytes_total (fst (send_chunk fp ch len d s)) = num_channel_bytes_total d"
  "num_block_bytes (fst (send_chunk fp ch len d s)) = num_block_bytes d"
  "num_block_read (fst (send_chunk fp ch len d s)) = num_block_read d"
  "num_header_bytes (fst (send_chunk fp ch len d s)) = num_header_bytes d"
  "vert_inc (fst (send_chunk fp ch len d s)) = vert_inc d"
  "vert_origin (fst (send_chunk fp ch len d s)) = vert_origin d"
  "vert_reference (fst (send_chunk fp ch len d s)) = vert_reference d"
  "vert_offset (fst (send_chunk fp ch len d s)) = vert_offset d"
  "buffer (fst (send_chunk fp ch len d s)) = buffer d"
  by (simp_all add: send_chunk_def Let_def)

lemma control_event:
  assumes "setup_event e \<or> frame_event e"
  shows "\<not> sample_event e" "e \<noteq> ReadComplete" "e \<noteq> ReadData m" "e \<noteq> AcquisitionStop"
proof -
  show "\<not> sample_event e"
  proof (cases e)
    case (SessionSend p)
    then show ?thesis using assms by (cases p) simp_all
  qed simp_all
  show "e \<noteq> ReadComplete" "e \<noteq> ReadData m" "e \<noteq> AcquisitionStop"
    using assms by auto
qed

lemma read_block_trace:
  assumes rd: "reads scpi2 = RdAvail k # rs"
  shows "\<exists>sdi' d' more. read_block fp sdi ch nxt devc2 scpi2 = Inr (TRUE, sdi') \<and> priv sdi' = Some d'
     \<and> trace (conn sdi') = trace scpi2 @ ReadData (request_len devc2)
          # SessionSend (chunk_packet fp ch devc2 (chunk k (request_len devc2) scpi2)) # more
     \<and> list_all (\<lambda>e. \<not> sample_event e) more
     \<and> (ReadComplete \<in> set more \<longleftrightarrow>
          num_block_read devc2 + of_nat (length (chunk k (request_len devc2) scpi2)) = num_block_bytes devc2)"
proof -
  define bs where "bs = chunk k (request_len devc2) scpi2"
  define devc' where "devc' = devc2\<lparr>buffer := store (buffer devc2) 0 bs,
                         num_block_read := num_block_read devc2 + of_nat (length bs)\<rparr>"
  define scpi' where "scpi' = scpi2\<lparr>reads := rs, trace := trace scpi2 @ [ReadData (request_len devc2)],
                         wire := drop (length bs) (wire scpi2)\<rparr>"
  have len: "length bs \<le> 65536" unfolding bs_def by (rule chunk_le)
  obtain devc3 scpi3 where sc: "send_chunk fp ch (of_nat (length bs)) devc' scpi' = (devc3, scpi3)"
    by (rule prod.exhaust)
  have t3: "trace scpi3 = trace scpi2 @ [ReadData (request_len devc2), SessionSend (chunk_packet fp ch devc2 bs)]"
    using sc send_chunk_eq [OF len, of devc' "buffer devc2" fp ch scpi']
    by (auto simp add: devc'_def scpi'_def chunk_packet_def)
  have f3: "num_block_read devc3 = num_block_read devc2 + of_nat (length bs)"
    "num_block_bytes devc3 = num_block_bytes devc2"
    using send_chunk_fields(8,9) [of fp ch "of_nat (length bs)" devc' scpi'] sc
    by (simp_all add: devc'_def)
  obtain devc4 scpi4 where fb: "finish_block devc3 scpi3 = (devc4, scpi4)"
    by (rule prod.exhaust)
  have t4: "trace scpi4 = trace scpi3 @
      (if num_block_read devc3 = num_block_bytes devc3 then [ReadData 1, ReadComplete] else [])"
    using finish_block_trace [of devc3 scpi3] fb by simp
  obtain sdi' d' where fc: "finish_channel sdi nxt (of_nat (length bs)) devc4 scpi4 = Inr (TRUE, sdi')"
    "priv sdi' = Some d'" "appended (\<lambda>e. setup_event e \<or> frame_event e) scpi4 (conn sdi')"
    using finish_channel_props [of sdi nxt "of_nat (length bs)" devc4 scpi4] by blast
  obtain evs where evs: "trace (conn sdi') = trace scpi4 @ evs"
    "list_all (\<lambda>e. setup_event e \<or> frame_event e) evs"
    using fc(3) by (auto simp add: appended_def)
  have ns: "list_all (\<lambda>e. \<not> sample_event e) evs" "ReadComplete \<notin> set evs"
    using evs(2) control_event(1,2) by (auto simp add: list_all_iff)
  define more where "more = (if num_block_read devc3 = num_block_bytes devc3
                             then [ReadData 1, ReadComplete] else []) @ evs"
  have "read_block fp sdi ch nxt devc2 scpi2 = Inr (TRUE, sdi')"
    using read_block_avail [OF rd, of fp sdi ch nxt devc2] sc fb fc(1)
    by (simp add: Let_def bs_def [symmetric] devc'_def [symmetric] scpi'_def [symmetric])
  moreover have "trace (conn sdi') = trace scpi2 @ ReadData (request_len devc2)
          # SessionSend (chunk_packet fp ch devc2 bs) # more"
    using evs(1) t4 t3 by (simp add: more_def)
  moreover have "list_all (\<lambda>e. \<not> sample_event e) more"
    using ns(1) by (simp add: more_def)
  moreover have "ReadComplete \<in> set more \<longleftrightarrow> num_block_read devc2 + of_nat (length bs) = num_block_bytes devc2"
    using ns(2) f3 by (simp add: more_def)
  ultimately show ?thesis
    using fc(2) unfolding bs_def by blast
qed

subsection \<open>The callback\<close>

lemma receive_reading:
  assumes "priv sdi = Some devc" "state devc = STATE_READING_DATA" "channel_entry devc = ch # nxt"
    and "revents = G_IO_IN \<or> revents = 0"
    and "start_block sdi devc (conn sdi) = Inr (devc2, scpi2)"
  shows "keysight_receive fp fd revents (Some sdi) =
           (case read_block fp sdi ch nxt devc2 scpi2 of
              Inl f \<Rightarrow> Inl f | Inr (ret, sdi1) \<Rightarrow> Inr (ret, Some sdi1))"
  using assms by (auto simp add: keysight_receive_def)

lemma receive_idle:
  assumes "priv sdi = Some devc" "state devc = STATE_IDLE"
  shows "keysight_receive fp fd revents (Some sdi) = Inr (TRUE, Some sdi)"
  using assms by (simp add: keysight_receive_def)

lemma read_block_err:
  assumes "reads scpi2 = RdErr # rs"
  shows "read_block fp sdi ch nxt devc2 scpi2 =
     Inr (TRUE, sdi\<lparr>priv := Some (devc2\<lparr>state := STATE_IDLE\<rparr>),
                    conn := scpi2\<lparr>reads := rs,
                       trace := trace scpi2 @ [ReadData (request_len devc2), SessionSend SR_DF_FRAME_END, AcquisitionStop]\<rparr>\<rparr>)"
  using assms
  by (simp add: read_block_def Let_def read_data_err abort_capture_def store_Nil
      std_session_send_df_frame_end_def sr_session_send_def sr_dev_acquisition_stop_def emit_def)


subsection \<open>The header phase keeps the rest of the context\<close>

lemma read_header_bytes_fields:
  assumes "read_header_bytes t d s = Inr (d', s')"
  shows "\<exists>b n. d' = d\<lparr>buffer := b, num_header_bytes := n\<rparr>"
proof (cases "num_header_bytes d < t")
  case True
  then show ?thesis
    using assms by (auto simp add: read_header_bytes_def split: if_splits prod.splits)
next
  case False
  then have "d' = d\<lparr>buffer := buffer d, num_header_bytes := num_header_bytes d\<rparr>"
    using assms by (simp add: read_header_bytes_def)
  then show ?thesis by blast
qed

lemma read_header_length_fields:
  assumes "read_header_length hl d s = (r, d', s')"
  shows "\<exists>b n. d' = d\<lparr>buffer := b, num_header_bytes := n\<rparr>"
proof (cases "read_header_bytes hl d s")
  case (Inl a)
  then have "d' = d\<lparr>buffer := buffer d, num_header_bytes := num_header_bytes d\<rparr>"
    using assms by (simp add: read_header_length_def)
  then show ?thesis by blast
next
  case (Inr q)
  obtain d2 s2 where q: "q = (d2, s2)" by (cases q)
  obtain b2 n2 where d2: "d2 = d\<lparr>buffer := b2, num_header_bytes := n2\<rparr>"
    using read_header_bytes_fields [OF Inr [unfolded q]] by blast
  have "d' = d2 \<or> d' = d2\<lparr>buffer := (buffer d2)(unat hl := CHR 0x00)\<rparr>"
    using assms Inr q
    by (auto simp add: read_header_length_def Let_def split: if_splits option.splits)
  then show ?thesis
  proof
    assume "d' = d2" then show ?thesis using d2 by blast
  next
    assume "d' = d2\<lparr>buffer := (buffer d2)(unat hl := CHR 0x00)\<rparr>"
    then have "d' = d\<lparr>buffer := (buffer d2)(unat hl := CHR 0x00), num_header_bytes := n2\<rparr>"
      using d2 by simp
    then show ?thesis by blast
  qed
qed

lemma read_header_fields:
  assumes "keysight_read_header d s = (r, d', s')"
  shows "\<exists>b n. d' = d\<lparr>buffer := b, num_header_bytes := n\<rparr>"
proof (cases "read_header_bytes 2 d s")
  case (Inl a)
  then have "d' = d\<lparr>buffer := buffer d, num_header_bytes := num_header_bytes d\<rparr>"
    using assms by (simp add: keysight_read_header_def)
  then show ?thesis by blast
next
  case (Inr p)
  obtain d1 s1 where p: "p = (d1, s1)" by (cases p)
  obtain b1 n1 where d1: "d1 = d\<lparr>buffer := b1, num_header_bytes := n1\<rparr>"
    using read_header_bytes_fields [OF Inr [unfolded p]] by blast
  have "d' = d1 \<or> read_header_length (2 + of_char (buffer d1 1) - 48) d1 s1 = (r, d', s')"
    using assms Inr p
    by (auto simp add: keysight_read_header_def split: if_splits)
  then show ?thesis
  proof
    assume "d' = d1" then show ?thesis using d1 by blast
  next
    assume "read_header_length (2 + of_char (buffer d1 1) - 48) d1 s1 = (r, d', s')"
    from read_header_length_fields [OF this]
    obtain b n where "d' = d1\<lparr>buffer := b, num_header_bytes := n\<rparr>" by blast
    then have "d' = d\<lparr>buffer := b, num_header_bytes := n\<rparr>" using d1 by simp
    then show ?thesis by blast
  qed
qed

lemma start_block_fields:
  assumes "start_block sdi d s = Inr (d2, s2)"
  shows "vert_inc d2 = vert_inc d" "vert_origin d2 = vert_origin d"
    "vert_reference d2 = vert_reference d" "vert_offset d2 = vert_offset d"
    "state d2 = state d" "channel_entry d2 = channel_entry d"
    "enabled_channels d2 = enabled_channels d" "num_frames d2 = num_frames d"
    "limit_frames d2 = limit_frames d" "num_channel_bytes d2 = num_channel_bytes d"
    "num_channel_bytes_total d2 = num_channel_bytes_total d"
proof -
  have "\<exists>b n bb br. d2 = d\<lparr>buffer := b, num_header_bytes := n, num_block_bytes := bb, num_block_read := br\<rparr>"
  proof (cases "num_block_bytes d = 0")
    case True
    obtain r d1 s1 where rh: "keysight_read_header d s = (r, d1, s1)" by (rule prod_cases3)
    obtain b n where d1: "d1 = d\<lparr>buffer := b, num_header_bytes := n\<rparr>"
      using read_header_fields [OF rh] by blast
    have "d2 = d1\<lparr>num_block_bytes := scast r, num_block_read := 0\<rparr>"
      using assms True rh by (auto simp add: start_block_def split: if_splits)
    then have "d2 = d\<lparr>buffer := b, num_header_bytes := n,
                  num_block_bytes := scast r, num_block_read := 0\<rparr>"
      using d1 by simp
    then show ?thesis by blast
  next
    case False
    then have "d2 = d" using assms by (simp add: start_block_def)
    then have "d2 = d\<lparr>buffer := buffer d, num_header_bytes := num_header_bytes d,
                       num_block_bytes := num_block_bytes d, num_block_read := num_block_read d\<rparr>"
      by simp
    then show ?thesis by blast
  qed
  then obtain b n bb br where
    "d2 = d\<lparr>buffer := b, num_header_bytes := n, num_block_bytes := bb, num_block_read := br\<rparr>"
    by blast
  then show "vert_inc d2 = vert_inc d" "vert_origin d2 = vert_origin d"
    "vert_reference d2 = vert_reference d" "vert_offset d2 = vert_offset d"
    "state d2 = state d" "channel_entry d2 = channel_entry d"
    "enabled_channels d2 = enabled_channels d" "num_frames d2 = num_frames d"
    "limit_frames d2 = limit_frames d" "num_channel_bytes d2 = num_channel_bytes d"
    "num_channel_bytes_total d2 = num_channel_bytes_total d"
    by simp_all
qed

lemma receive_chunk:
  assumes "priv sdi = Some devc" "state devc = STATE_READING_DATA" "channel_entry devc = ch # nxt"
    and "revents = G_IO_IN \<or> revents = 0"
    and "start_block sdi devc (conn sdi) = Inr (devc2, scpi2)"
    and "reads scpi2 = RdAvail k # rs"
  shows "\<exists>sdi' d' more. keysight_receive fp fd revents (Some sdi) = Inr (TRUE, Some sdi')
     \<and> priv sdi' = Some d'
     \<and> trace (conn sdi') = trace scpi2 @ ReadData (request_len devc2)
          # SessionSend (chunk_packet fp ch devc2 (chunk k (request_len devc2) scpi2)) # more
     \<and> list_all (\<lambda>e. \<not> sample_event e) more
     \<and> (ReadComplete \<in> set more \<longleftrightarrow>
          num_block_read devc2 + of_nat (length (chunk k (request_len devc2) scpi2)) = num_block_bytes devc2)"
proof -
  obtain sdi' d' more where rb: "read_block fp sdi ch nxt devc2 scpi2 = Inr (TRUE, sdi')" "priv sdi' = Some d'"
    "trace (conn sdi') = trace scpi2 @ ReadData (request_len devc2)
          # SessionSend (chunk_packet fp ch devc2 (chunk k (request_len devc2) scpi2)) # more"
    "list_all (\<lambda>e. \<not> sample_event e) more"
    "ReadComplete \<in> set more \<longleftrightarrow>
          num_block_read devc2 + of_nat (length (chunk k (request_len devc2) scpi2)) = num_block_bytes devc2"
    using read_block_trace [OF assms(6), of fp sdi ch nxt devc2] by blast
  have "keysight_receive fp fd revents (Some sdi) = Inr (TRUE, Some sdi')"
    using receive_reading [OF assms(1-5), of fp fd] rb(1) by simp
  then show ?thesis using rb(2-) by blast
qed

subsection \<open>The arithmetic of a sample\<close>

lemma sint_of_char: "sint (of_char b :: 32 word) = int (of_char b)"
proof -
  have "(of_char b :: nat) < 256"
    by (rule nat_of_char_less_256)
  then have "(of_char b :: nat) \<le> 65536"
    by linarith
  from sint_small [OF this] show ?thesis by (simp add: of_nat_of_char)
qed

lemma sint_byte_minus:
  assumes "- (2 ^ 31) + 255 < sint (vref :: 32 word)"
  shows "sint (of_char b - vref) = int (of_char b) - sint vref"
proof -
  have "(of_char b :: nat) < 256"
    by (rule nat_of_char_less_256)
  then have b: "int (of_char b) < 256" "0 \<le> int (of_char b)"
    by linarith+
  have v: "sint vref < 2147483648" "- 2147483393 < sint vref"
    using sint_lt [of vref] assms by simp_all
  have "sint (of_char b - vref) = signed_take_bit 31 (int (of_char b) - sint vref)"
    by (simp add: sint_word_ariths sint_of_char)
  also have "\<dots> = int (of_char b) - sint vref"
  proof (rule signed_take_bit_int_eq_self)
    have "- 2147483648 \<le> int (of_char b) - sint vref"
      using b v by linarith
    then show "- (2 ^ 31) \<le> int (of_char b) - sint vref"
      by simp
    have "int (of_char b) - sint vref < 2147483648"
      using b v by linarith
    then show "int (of_char b) - sint vref < 2 ^ 31"
      by simp
  qed
  finally show ?thesis .
qed

lemma exact_fpu_simps:
  "dsub exact_fpu x y = x - y" "dmul exact_fpu x y = x * y" "to_float exact_fpu x = x"
  "log10f exact_fpu x = log 10 x"
  by (simp_all add: exact_fpu_def)

lemma analog_sample_exact:
  assumes "- (2 ^ 31) + 255 < sint vref"
  shows "analog_sample exact_fpu vref origin vdiv b
           = (real (of_char b) - real_of_int (sint vref) - origin) * vdiv"
  by (simp add: analog_sample_def exact_fpu_def sint_byte_minus [OF assms])


subsection \<open>The stages of a chunk\<close>



subsection \<open>Evaluation\<close>

lemmas model_defs =
  keysight_receive_def start_block_def read_block_def request_len_def sr_scpi_read_data_def emit_def
  send_chunk_def finish_block_def finish_channel_def keysight_capture_start_def sr_scpi_send_def
  next_reply_def std_session_send_df_frame_end_def std_session_send_df_frame_begin_def
  sr_session_send_def sr_scpi_read_complete_def sr_dev_acquisition_stop_def abort_capture_def
  keysight_channel_start_def request_channel_data_def first_frame_setup_def keysight_config_set_def
  sr_scpi_get_opc_def sr_scpi_get_int_def sr_scpi_get_float_def sr_scpi_read_begin_def
  keysight_read_header_def read_header_length_def read_header_bytes_def
  store_def Let_def SR_OK_def SR_ERR_def TRUE_def G_IO_IN_def ACQ_BUFFER_SIZE_def


subsection \<open>The digits of an increment of 1/20\<close>

lemma log10_twentieth: "- 2 < log 10 (1 / 20)" "log 10 (1 / 20) < - 1"
proof -
  have "(10::real) powr (- 2) = 1 / 100"
    by (simp add: powr_minus_divide)
  then have "(10::real) powr (- 2) < 1 / 20" by simp
  then show "- 2 < log 10 (1 / 20)"
    by (simp add: less_log_iff)
  have "(10::real) powr (- 1) = 1 / 10"
    by (simp add: powr_minus_divide)
  then have "1 / 20 < (10::real) powr (- 1)" by simp
  then show "log 10 (1 / 20) < - 1"
    by (simp add: log_less_iff)
qed

lemma floor_log10_twentieth: "\<lfloor>log 10 (1 / 20) :: real\<rfloor> = - 2"
  using log10_twentieth by (simp add: floor_eq_iff)

lemma ceiling_log10_twentieth: "\<lceil>log 10 (1 / 20) :: real\<rceil> = - 1"
  using log10_twentieth by (simp add: ceiling_eq_iff)

lemma c_trunc_eq: "c_trunc x = (if x < 0 then \<lceil>x\<rceil> else \<lfloor>x\<rfloor>)"
  by (simp add: c_trunc_def ceiling_def)

lemma analog_digits_twentieth: "analog_digits exact_fpu (1 / 20) = 2"
  using log10_twentieth
  by (simp add: analog_digits_def Let_def c_trunc_eq exact_fpu_simps ceiling_log10_twentieth)


subsection \<open>What \<^verbatim>\<open>parse_int\<close> accepts\<close>

lemma strtol_form_sign:
  "(case s1 of [] \<Rightarrow> [] | c # r \<Rightarrow> if c = CHR ''-'' \<or> c = CHR ''+'' then r else s1)
     = drop (length (case s1 of [] \<Rightarrow> [] | c # _ \<Rightarrow> if c = CHR ''-'' \<or> c = CHR ''+'' then [c] else [])) s1"
  by (cases s1) auto

lemma takeWhile_length_eq: "length (takeWhile P xs) = length xs \<longleftrightarrow> list_all P xs"
  by (induction xs) (auto simp add: le_Suc_eq dest: length_takeWhile_le [THEN le_trans])

lemma parse_int_Some_form:
  assumes "parse_int s = Some v"
  shows "strtol_form s"
proof -
  define ws where "ws = takeWhile isspace s"
  define s1 where "s1 = dropWhile isspace s"
  define sign where "sign = (case s1 of [] \<Rightarrow> [] | c # _ \<Rightarrow> if c = CHR ''-'' \<or> c = CHR ''+'' then [c] else [])"
  define s2 where "s2 = drop (length sign) s1"
  define ds where "ds = takeWhile isdigit s2"
  have st: "strtol s = (if ds = [] then (0, 0, False)
         else if LONG_MAX < (if sign = ''-'' then - decimal ds else decimal ds)
              then (LONG_MAX, length ws + length sign + length ds, True)
         else if (if sign = ''-'' then - decimal ds else decimal ds) < LONG_MIN
              then (LONG_MIN, length ws + length sign + length ds, True)
         else ((if sign = ''-'' then - decimal ds else decimal ds),
               length ws + length sign + length ds, False))"
    unfolding strtol_def Let_def ws_def s1_def sign_def s2_def ds_def by (rule refl)
  have ne: "ds \<noteq> []"
    using assms st by (auto simp add: parse_int_def)
  have e: "length ws + length sign + length ds = length s"
    using assms st ne by (auto simp add: parse_int_def split: if_splits)
  have l1: "length s = length ws + length s1"
    unfolding ws_def s1_def
    by (metis length_append takeWhile_dropWhile_id)
  have sl: "length sign \<le> length s1"
    unfolding sign_def by (cases s1) auto
  have l2: "length s1 = length sign + length s2"
    unfolding s2_def using sl by simp
  have "length ds = length s2"
    using e l1 l2 by simp
  then have all: "list_all isdigit s2"
    unfolding ds_def by (simp add: takeWhile_length_eq)
  have "s2 \<noteq> []" using ne unfolding ds_def by auto
  then show ?thesis
    using all unfolding strtol_form_def Let_def strtol_form_sign s1_def [symmetric] sign_def [symmetric]
      s2_def [symmetric]
    by simp
qed

lemma parse_int_not_form: "\<not> strtol_form s \<Longrightarrow> parse_int s = None"
  using parse_int_Some_form [of s] by (cases "parse_int s") auto

lemma parse_int_range:
  "INT_MAX < fst (strtol s) \<or> fst (strtol s) < INT_MIN \<Longrightarrow> parse_int s = None"
  by (auto simp add: parse_int_def split: prod.splits)

lemma isdigit_not_space: "isdigit c \<Longrightarrow> \<not> isspace c"
  by (auto simp add: isdigit_def isspace_def)

lemma isdigit_not_sign: "isdigit c \<Longrightarrow> c \<noteq> CHR ''-'' \<and> c \<noteq> CHR ''+''"
  by (auto simp add: isdigit_def)

lemma strtol_digits:
  assumes "ds \<noteq> []" "list_all isdigit ds"
  shows "strtol ds = (if LONG_MAX < decimal ds then (LONG_MAX, length ds, True)
                      else if decimal ds < LONG_MIN then (LONG_MIN, length ds, True)
                      else (decimal ds, length ds, False))"
proof -
  obtain c r where ds: "ds = c # r" using assms(1) by (cases ds) auto
  have c: "isdigit c" using assms(2) ds by simp
  have tw: "takeWhile isspace ds = []" "dropWhile isspace ds = ds"
    using c isdigit_not_space [OF c] by (simp_all add: ds)
  have td: "takeWhile isdigit ds = ds"
    using assms(2) by (simp add: takeWhile_eq_all_conv list_all_iff)
  have sg: "(case ds of [] \<Rightarrow> [] | c # _ \<Rightarrow> if c = CHR ''-'' \<or> c = CHR ''+'' then [c] else []) = []"
    using isdigit_not_sign [OF c] by (simp add: ds)
  show ?thesis
    unfolding strtol_def Let_def tw sg
    by (simp add: td assms(1))
qed

lemma decimal_bounds:
  assumes "list_all isdigit ds"
  shows "0 \<le> decimal ds \<and> decimal ds < 10 ^ length ds"
proof -
  have "0 \<le> foldl (\<lambda>acc c. 10 * acc + (of_char c - 48)) a ds
        \<and> foldl (\<lambda>acc c. 10 * acc + (of_char c - 48)) a ds < (a + 1) * 10 ^ length ds"
    if "0 \<le> a" for a :: int
    using assms that
  proof (induction ds arbitrary: a)
    case Nil
    then show ?case by simp
  next
    case (Cons c ds)
    have d: "48 \<le> (of_char c :: nat)" "(of_char c :: nat) \<le> 57"
      using Cons.prems(1) by (simp_all add: isdigit_def)
    then have d': "0 \<le> (of_char c :: int) - 48" "(of_char c :: int) - 48 \<le> 9"
      by (simp_all add: of_nat_of_char [symmetric, where ?'a = int] del: of_nat_of_char)
    define a' where "a' = 10 * a + (of_char c - 48)"
    have a': "0 \<le> a'" "a' + 1 \<le> (a + 1) * 10"
      using d' Cons.prems(2) by (simp_all add: a'_def)
    from Cons.IH [of a'] Cons.prems(1) a'(1)
    have ih: "0 \<le> foldl (\<lambda>acc c. 10 * acc + (of_char c - 48)) a' ds"
      "foldl (\<lambda>acc c. 10 * acc + (of_char c - 48)) a' ds < (a' + 1) * 10 ^ length ds"
      by simp_all
    have "(a' + 1) * 10 ^ length ds \<le> ((a + 1) * 10) * 10 ^ length ds"
      using a'(2) by (intro mult_right_mono) simp_all
    with ih(2) have lt: "foldl (\<lambda>acc c. 10 * acc + (of_char c - 48)) a' ds < ((a + 1) * 10) * 10 ^ length ds"
      by (rule order.strict_trans2)
    have "foldl (\<lambda>acc c. 10 * acc + (of_char c - 48)) a (c # ds)
            = foldl (\<lambda>acc c. 10 * acc + (of_char c - 48)) a' ds"
      by (simp add: a'_def)
    moreover have "(a + 1) * 10 ^ length (c # ds) = ((a + 1) * 10) * 10 ^ length ds"
      by simp
    ultimately show ?case
      using ih(1) lt by (simp only:)
  qed
  from this [of 0] show ?thesis by (simp add: decimal_def)
qed

lemma parse_int_digits:
  assumes "ds \<noteq> []" "list_all isdigit ds" "length ds \<le> 9"
  shows "parse_int ds = Some (word_of_int (decimal ds))"
proof -
  have "(10::int) ^ length ds \<le> 10 ^ 9"
    using assms(3) by (intro power_increasing) simp_all
  then have b: "0 \<le> decimal ds" "decimal ds < 1000000000"
    using decimal_bounds [OF assms(2)] by simp_all
  show ?thesis
    using b assms(1)
    by (simp add: parse_int_def strtol_digits [OF assms(1,2)] LONG_MAX_def LONG_MIN_def INT_MAX_def
        INT_MIN_def)
qed

lemma parse_int_overflow:
  assumes "ds \<noteq> []" "list_all isdigit ds" "INT_MAX < decimal ds"
  shows "parse_int ds = None"
  using assms(3)
  by (auto simp add: parse_int_def strtol_digits [OF assms(1,2)] INT_MAX_def LONG_MAX_def)

lemma map_upd_outside: "map (f(n := x)) [m..<n] = map f [m..<n]"
  by simp

lemmas parse_defs =
  parse_int_def strtol_def isspace_def isdigit_def decimal_def c_string_def
  LONG_MAX_def LONG_MIN_def INT_MAX_def INT_MIN_def


subsection \<open>C1: the frame limit\<close>





subsection \<open>C3: malformed headers\<close>

text \<open>
  Claim C3 says that a length field with any character that is not a decimal digit, a sign
  or white space included, is an error.  \<^verbatim>\<open>parse_int\<close> is \<^verbatim>\<open>strtol\<close>, which skips white
  space and takes a sign: the header \<^verbatim>\<open>#2+5\<close> is decoded as a block of 5 bytes, which the
  callback goes on to read.
\<close>

theorem signed_length_counterexample:
  "strtol_form ''+5'' = True
   \<and> fst (keysight_read_header example_devc
            (example_scpi\<lparr>wire := ''#2+5hello'' @ [CHR 0x0A], reads := [RdAvail 2, RdAvail 2]\<rparr>)) = 5
   \<and> summary (keysight_receive exact_fpu 0 G_IO_IN
        (Some \<lparr>priv = Some example_devc,
               conn = example_scpi\<lparr>wire := ''#2+5hello'' @ [CHR 0x0A],
                                   reads := [RdAvail 2, RdAvail 2, RdAvail 5, RdAvail 1]\<rparr>\<rparr>))
     = Some (1, STATE_READING_DATA, 1,
         [ReadData 2, ReadData 2, ReadData 5, SessionSend (SR_DF_LOGIC ''hello'' 1), ReadData 1,
          ReadComplete])"
  by (simp add: summary_def example_devc_def example_scpi_def example_pod_def model_defs parse_defs
      strtol_form_def upt_rec word_sless_alt)

text \<open>
  Claim C3, as amended.  Once two header bytes are there, a first byte other than \<^verbatim>\<open>#\<close>,
  or a second byte that is \<^verbatim>\<open>0\<close> or not a digit, makes the decoder return \<^verbatim>\<open>SR_ERR\<close>; and
  once the whole header is there, a length field that is not, up to its first NUL, of the
  form \<^emph>\<open>white space, an optional sign, one or more decimal digits\<close> makes it return
  \<open>- 1\<close>.  In both cases the caller aborts the capture, and no payload is read.  A run of
  digits whose value is beyond \<^verbatim>\<open>INT_MAX\<close> is an error of \<^verbatim>\<open>parse_int\<close> (the length field of
  a header, of 9 characters at most, cannot be that large).
\<close>

theorem malformed_header_is_error:
  assumes "num_block_bytes devc = 0"
    and "read_header_bytes 2 devc scpi = Inr (devca, scpia)" and "\<not> num_header_bytes devca < 2"
    and "buffer devca 0 \<noteq> CHR ''#'' \<or> \<not> isdigit (buffer devca 1) \<or> buffer devca 1 = CHR ''0''
         \<or> (read_header_bytes (2 + of_char (buffer devca 1) - 48) devca scpia = Inr (devcb, scpib)
            \<and> \<not> num_header_bytes devcb < 2 + of_char (buffer devca 1) - 48
            \<and> \<not> strtol_form (c_string (map (buffer devcb)
                    [2..<unat (2 + of_char (buffer devca 1) - 48 :: size_t)])))"
  shows "(\<exists>devc' scpi'. keysight_read_header devc scpi = (- 1, devc', scpi')
            \<and> start_block sdi devc scpi = Inl (abort_capture sdi devc' scpi'))
         \<and> (\<forall>ds. ds \<noteq> [] \<and> list_all isdigit ds \<and> INT_MAX < decimal ds \<longrightarrow> parse_int ds = None)"
proof -
  have "\<exists>devc' scpi'. keysight_read_header devc scpi = (- 1, devc', scpi')"
  proof (cases "buffer devca 0 \<noteq> CHR ''#'' \<or> \<not> isdigit (buffer devca 1) \<or> buffer devca 1 = CHR ''0''")
    case True
    then have "keysight_read_header devc scpi = (- 1, devca, scpia)"
      using assms(2,3) by (simp add: keysight_read_header_def SR_ERR_def)
    then show ?thesis by blast
  next
    case False
    define hl where "hl = (2 + of_char (buffer devca 1) - 48 :: size_t)"
    from False assms(4) have b: "read_header_bytes hl devca scpia = Inr (devcb, scpib)"
      "\<not> num_header_bytes devcb < hl"
      "\<not> strtol_form (c_string (map (buffer devcb) [2..<unat hl]))"
      unfolding hl_def by blast+
    have "parse_int (c_string (map (buffer devcb) [2..<unat hl])) = None"
      using b(3) by (rule parse_int_not_form)
    then have "read_header_length hl devca scpia
                 = (- 1, devcb\<lparr>buffer := (buffer devcb)(unat hl := CHR 0x00)\<rparr>, scpib)"
      using b(1,2) by (simp add: read_header_length_def Let_def)
    then have "keysight_read_header devc scpi
                 = (- 1, devcb\<lparr>buffer := (buffer devcb)(unat hl := CHR 0x00)\<rparr>, scpib)"
      using assms(2,3) False by (simp add: keysight_read_header_def hl_def)
    then show ?thesis by blast
  qed
  then obtain devc' scpi' where r: "keysight_read_header devc scpi = (- 1, devc', scpi')"
    by blast
  then have "start_block sdi devc scpi = Inl (abort_capture sdi devc' scpi')"
    using assms(1) by (simp add: start_block_def)
  with r show ?thesis
    using parse_int_overflow by blast
qed

theorem malformed_header_is_error_witness:
  "(\<exists>devc' scpi'.
      keysight_read_header example_devc (example_scpi\<lparr>wire := ''x5'', reads := [RdAvail 2]\<rparr>)
        = (- 1, devc', scpi')
      \<and> start_block \<lparr>priv = Some example_devc, conn = example_scpi\<rparr> example_devc
            (example_scpi\<lparr>wire := ''x5'', reads := [RdAvail 2]\<rparr>)
          = Inl (abort_capture \<lparr>priv = Some example_devc, conn = example_scpi\<rparr> devc' scpi'))
   \<and> (\<exists>devc' scpi'.
      keysight_read_header example_devc (example_scpi\<lparr>wire := ''#25x'', reads := [RdAvail 2, RdAvail 2]\<rparr>)
        = (- 1, devc', scpi')
      \<and> start_block \<lparr>priv = Some example_devc, conn = example_scpi\<rparr> example_devc
            (example_scpi\<lparr>wire := ''#25x'', reads := [RdAvail 2, RdAvail 2]\<rparr>)
          = Inl (abort_capture \<lparr>priv = Some example_devc, conn = example_scpi\<rparr> devc' scpi'))"
proof
  show "\<exists>devc' scpi'.
      keysight_read_header example_devc (example_scpi\<lparr>wire := ''x5'', reads := [RdAvail 2]\<rparr>)
        = (- 1, devc', scpi')
      \<and> start_block \<lparr>priv = Some example_devc, conn = example_scpi\<rparr> example_devc
            (example_scpi\<lparr>wire := ''x5'', reads := [RdAvail 2]\<rparr>)
          = Inl (abort_capture \<lparr>priv = Some example_devc, conn = example_scpi\<rparr> devc' scpi')"
    by (rule malformed_header_is_error
          [where devca = "example_devc\<lparr>buffer := store (\<lambda>_. CHR 0x00) 0 ''x5'', num_header_bytes := 2\<rparr>"
             and scpia = "example_scpi\<lparr>wire := [], reads := [], trace := [ReadData 2]\<rparr>"
             and devcb = example_devc and scpib = example_scpi, THEN conjunct1])
      (simp_all add: example_devc_def example_scpi_def read_header_bytes_def sr_scpi_read_data_def
         emit_def word_sless_alt, simp add: store_def)
  show "\<exists>devc' scpi'.
      keysight_read_header example_devc (example_scpi\<lparr>wire := ''#25x'', reads := [RdAvail 2, RdAvail 2]\<rparr>)
        = (- 1, devc', scpi')
      \<and> start_block \<lparr>priv = Some example_devc, conn = example_scpi\<rparr> example_devc
            (example_scpi\<lparr>wire := ''#25x'', reads := [RdAvail 2, RdAvail 2]\<rparr>)
          = Inl (abort_capture \<lparr>priv = Some example_devc, conn = example_scpi\<rparr> devc' scpi')"
    by (rule malformed_header_is_error
          [where devca = "example_devc\<lparr>buffer := store (\<lambda>_. CHR 0x00) 0 ''#2'', num_header_bytes := 2\<rparr>"
             and scpia = "example_scpi\<lparr>wire := ''5x'', reads := [RdAvail 2], trace := [ReadData 2]\<rparr>"
             and devcb = "example_devc\<lparr>buffer := store (store (\<lambda>_. CHR 0x00) 0 ''#2'') 2 ''5x'',
                                       num_header_bytes := 4\<rparr>"
             and scpib = "example_scpi\<lparr>wire := [], reads := [], trace := [ReadData 2, ReadData 2]\<rparr>",
           THEN conjunct1])
      (simp_all add: example_devc_def example_scpi_def read_header_bytes_def sr_scpi_read_data_def
         emit_def word_sless_alt, simp add: store_def parse_defs strtol_form_def upt_rec)
qed


subsection \<open>C4: the conversion of an analog chunk\<close>

text \<open>
  Claim C4.  When the callback reads a chunk of an analog channel, it sends one analog
  packet for that channel, with one sample for each byte of the chunk and in the order of
  the bytes: sample \<open>i\<close> is \<^verbatim>\<open>((int)raw[i] - vert_reference - vert_origin) * vert_inc\<close>
  with the constants cached for the channel, computed in the machine's arithmetic (the
  \<^verbatim>\<open>int\<close> subtraction, then \<^verbatim>\<open>double\<close>, then stored as \<^verbatim>\<open>float\<close>).  Without rounding
  and without overflow of the \<^verbatim>\<open>int\<close> subtraction this is the real number
  \<open>(raw[i] - reference - origin) * increment\<close>.  The conversion of a chunk leaves the four
  calibration arrays as they are.
\<close>

theorem analog_chunk_conversion:
  assumes "priv sdi = Some devc" "state devc = STATE_READING_DATA" "channel_entry devc = ch # nxt"
    and "revents = G_IO_IN \<or> revents = 0"
    and "start_block sdi devc (conn sdi) = Inr (devc2, scpi2)"
    and "reads scpi2 = RdAvail k # rs"
    and "ctype ch = SR_CHANNEL_ANALOG"
  shows "\<exists>sdi' samples digits more.
       keysight_receive fp fd revents (Some sdi) = Inr (TRUE, Some sdi')
     \<and> trace (conn sdi') = trace scpi2 @ ReadData (request_len devc2)
          # SessionSend (SR_DF_ANALOG ch samples digits) # more
     \<and> list_all (\<lambda>e. \<not> sample_event e) more
     \<and> length samples = length (take (min k (nat (sint (request_len devc2)))) (wire scpi2))
     \<and> (\<forall>i < length samples.
            samples ! i =
              to_float fp (dmul fp (dsub fp
                (real_of_int (sint (of_char (wire scpi2 ! i) - vert_reference devc (index ch))))
                (vert_origin devc (index ch))) (vert_inc devc (index ch))))
     \<and> (fp = exact_fpu \<longrightarrow> - (2 ^ 31) + 255 < sint (vert_reference devc (index ch)) \<longrightarrow>
          (\<forall>i < length samples.
            samples ! i = (real (of_char (wire scpi2 ! i)) - real_of_int (sint (vert_reference devc (index ch)))
                             - vert_origin devc (index ch)) * vert_inc devc (index ch)))
     \<and> (\<forall>len d s. vert_reference (fst (send_chunk fp ch len d s)) = vert_reference d
                  \<and> vert_origin (fst (send_chunk fp ch len d s)) = vert_origin d
                  \<and> vert_inc (fst (send_chunk fp ch len d s)) = vert_inc d
                  \<and> vert_offset (fst (send_chunk fp ch len d s)) = vert_offset d)"
proof -
  define bs where "bs = take (min k (nat (sint (request_len devc2)))) (wire scpi2)"
  define f where "f = analog_sample fp (vert_reference devc (index ch)) (vert_origin devc (index ch))
                  (vert_inc devc (index ch))"
  obtain sdi' more where r: "keysight_receive fp fd revents (Some sdi) = Inr (TRUE, Some sdi')"
    "trace (conn sdi') = trace scpi2 @ ReadData (request_len devc2)
          # SessionSend (SR_DF_ANALOG ch (map f bs) (analog_digits fp (vert_inc devc (index ch)))) # more"
    "list_all (\<lambda>e. \<not> sample_event e) more"
    using receive_chunk [OF assms(1-6), of fp fd] assms(7) start_block_fields(1-4) [OF assms(5)]
    by (auto simp add: chunk_packet_def chunk_def bs_def f_def)
  have nth: "\<And>i. i < length bs \<Longrightarrow> bs ! i = wire scpi2 ! i"
    by (simp add: bs_def)
  have a: "\<forall>i < length (map f bs). map f bs ! i =
              to_float fp (dmul fp (dsub fp
                (real_of_int (sint (of_char (wire scpi2 ! i) - vert_reference devc (index ch))))
                (vert_origin devc (index ch))) (vert_inc devc (index ch)))"
    by (simp add: f_def analog_sample_def nth)
  have b: "fp = exact_fpu \<longrightarrow> - (2 ^ 31) + 255 < sint (vert_reference devc (index ch)) \<longrightarrow>
          (\<forall>i < length (map f bs).
            map f bs ! i = (real (of_char (wire scpi2 ! i)) - real_of_int (sint (vert_reference devc (index ch)))
                             - vert_origin devc (index ch)) * vert_inc devc (index ch))"
    by (simp add: f_def analog_sample_exact nth)
  have c: "\<forall>len d s. vert_reference (fst (send_chunk fp ch len d s)) = vert_reference d
                  \<and> vert_origin (fst (send_chunk fp ch len d s)) = vert_origin d
                  \<and> vert_inc (fst (send_chunk fp ch len d s)) = vert_inc d
                  \<and> vert_offset (fst (send_chunk fp ch len d s)) = vert_offset d"
    by (simp add: send_chunk_fields)
  have d: "length (map f bs) = length (take (min k (nat (sint (request_len devc2)))) (wire scpi2))"
    by (simp add: bs_def)
  show ?thesis
    using r a b c d by blast
qed

theorem analog_chunk_conversion_witness:
  "\<exists>sdi' samples digits more.
       keysight_receive exact_fpu 0 G_IO_IN
         (Some \<lparr>priv = Some (example_devc\<lparr>channel_entry := [example_analog, example_pod],
                                          num_block_bytes := 1400, num_block_read := 500\<rparr>),
                conn = example_scpi\<lparr>wire := [CHR 0x80, CHR 0x94, CHR 0x6C],
                                    reads := [RdAvail 2]\<rparr>\<rparr>) = Inr (TRUE, Some sdi')
     \<and> trace (conn sdi') = ReadData 900 # SessionSend (SR_DF_ANALOG example_analog samples digits) # more
     \<and> list_all (\<lambda>e. \<not> sample_event e) more
     \<and> length samples = 2 \<and> samples ! 0 = 0 \<and> samples ! 1 = 1"
  using analog_chunk_conversion
    [of "\<lparr>priv = Some (example_devc\<lparr>channel_entry := [example_analog, example_pod],
                                          num_block_bytes := 1400, num_block_read := 500\<rparr>),
                conn = example_scpi\<lparr>wire := [CHR 0x80, CHR 0x94, CHR 0x6C],
                                    reads := [RdAvail 2]\<rparr>\<rparr>"
        "example_devc\<lparr>channel_entry := [example_analog, example_pod],
                                          num_block_bytes := 1400, num_block_read := 500\<rparr>"
        example_analog "[example_pod]" G_IO_IN
        "example_devc\<lparr>channel_entry := [example_analog, example_pod],
                                          num_block_bytes := 1400, num_block_read := 500\<rparr>"
        "example_scpi\<lparr>wire := [CHR 0x80, CHR 0x94, CHR 0x6C],
                                    reads := [RdAvail 2]\<rparr>" 2 "[]" exact_fpu 0]
  by (auto simp add: example_devc_def example_scpi_def example_analog_def start_block_def request_len_def exact_fpu_simps All_less_Suc
      ACQ_BUFFER_SIZE_def)


subsection \<open>C6: a read error in the payload\<close>

text \<open>
  Claim C6.  The callback is reading data and has come to the read of a block's payload
  (a block was in progress, or its header has just been decoded).  When that read fails,
  the call emits \<^verbatim>\<open>FrameEnd\<close> once and nothing after it but the stop of the acquisition,
  leaves the state \<^verbatim>\<open>Idle\<close> and the rest of the context as it was, and every later call
  does nothing.
\<close>

theorem receive_payload_read_error:
  assumes "priv sdi = Some devc" "state devc = STATE_READING_DATA" "channel_entry devc = ch # nxt"
    and "revents = G_IO_IN \<or> revents = 0"
    and "start_block sdi devc (conn sdi) = Inr (devc2, scpi2)"
    and "reads scpi2 = RdErr # rs"
  shows "\<exists>sdi'. keysight_receive fp fd revents (Some sdi) = Inr (TRUE, Some sdi')
           \<and> priv sdi' = Some (devc2\<lparr>state := STATE_IDLE\<rparr>)
           \<and> conn sdi' = scpi2\<lparr>reads := rs,
                 trace := trace scpi2 @ [ReadData (request_len devc2), SessionSend SR_DF_FRAME_END, AcquisitionStop]\<rparr>
           \<and> keysight_receive fp fd' revents' (Some sdi') = Inr (TRUE, Some sdi')"
proof -
  let ?sdi' = "sdi\<lparr>priv := Some (devc2\<lparr>state := STATE_IDLE\<rparr>),
                    conn := scpi2\<lparr>reads := rs,
                       trace := trace scpi2 @ [ReadData (request_len devc2), SessionSend SR_DF_FRAME_END, AcquisitionStop]\<rparr>\<rparr>"
  have "keysight_receive fp fd revents (Some sdi) = Inr (TRUE, Some ?sdi')"
    using assms by (simp add: receive_reading read_block_err)
  moreover have "keysight_receive fp fd' revents' (Some ?sdi') = Inr (TRUE, Some ?sdi')"
    by (rule receive_idle [where devc = "devc2\<lparr>state := STATE_IDLE\<rparr>"]) simp_all
  ultimately show ?thesis by auto
qed

theorem receive_payload_read_error_witness:
  "\<exists>sdi'. keysight_receive exact_fpu 0 G_IO_IN
             (Some \<lparr>priv = Some (example_devc\<lparr>num_block_bytes := 1400, num_block_read := 500\<rparr>),
                    conn = example_scpi\<lparr>wire := ''abc'', reads := [RdErr]\<rparr>\<rparr>) = Inr (TRUE, Some sdi')
     \<and> priv sdi' = Some (example_devc\<lparr>num_block_bytes := 1400, num_block_read := 500, state := STATE_IDLE\<rparr>)
     \<and> conn sdi' = example_scpi\<lparr>wire := ''abc'', reads := [],
           trace := [ReadData 900, SessionSend SR_DF_FRAME_END, AcquisitionStop]\<rparr>
     \<and> keysight_receive exact_fpu 0 G_IO_IN (Some sdi') = Inr (TRUE, Some sdi')"
  using receive_payload_read_error
    [of "\<lparr>priv = Some (example_devc\<lparr>num_block_bytes := 1400, num_block_read := 500\<rparr>),
                    conn = example_scpi\<lparr>wire := ''abc'', reads := [RdErr]\<rparr>\<rparr>"
        "example_devc\<lparr>num_block_bytes := 1400, num_block_read := 500\<rparr>"
        example_pod "[]" G_IO_IN
        "example_devc\<lparr>num_block_bytes := 1400, num_block_read := 500\<rparr>"
        "example_scpi\<lparr>wire := ''abc'', reads := [RdErr]\<rparr>" "[]" exact_fpu 0 0 G_IO_IN]
  by (simp add: example_devc_def example_scpi_def start_block_def request_len_def ACQ_BUFFER_SIZE_def)


subsection \<open>C7: a failed channel start\<close>

text \<open>
  Claim C7 says that a failure in \<^verbatim>\<open>keysight_channel_start\<close> aborts the capture, as a
  failed header or payload read does (lines 318-324 and 337-343).  The callback does
  nothing of the kind.  In state \<^verbatim>\<open>Digitizing\<close> (lines 298-301), when the channel start
  returns anything but \<^verbatim>\<open>SR_OK\<close>, the call returns \<^verbatim>\<open>TRUE\<close> in state \<^verbatim>\<open>Digitizing\<close>,
  and the trace has gained setup commands only: no \<^verbatim>\<open>FrameEnd\<close>, no stop of the
  acquisition.
\<close>

theorem channel_start_failure_not_aborted:
  assumes "priv sdi = Some devc" "state devc = STATE_DIGITIZING"
    and "revents = G_IO_IN \<or> revents = 0"
    and "keysight_channel_start sdi = Inr (ret, sdi1)" "ret \<noteq> SR_OK"
  shows "keysight_receive fp fd revents (Some sdi) = Inr (TRUE, Some sdi1)
     \<and> (\<exists>d1 evs. priv sdi1 = Some d1 \<and> state d1 = STATE_DIGITIZING
           \<and> trace (conn sdi1) = trace (conn sdi) @ evs \<and> list_all setup_event evs)"
proof -
  have ce: "channel_entry devc \<noteq> []"
    using assms(1,4) by (auto simp add: keysight_channel_start_def)
  obtain r sdi' d' where p: "keysight_channel_start sdi = Inr (r, sdi')" "priv sdi' = Some d'"
    "appended setup_event (conn sdi) (conn sdi')"
    "state d' = (if r = SR_OK then STATE_READING_DATA else state devc)"
    using channel_start_props [OF assms(1) ce] by blast
  have eq: "r = ret" "sdi' = sdi1" using p(1) assms(4) by simp_all
  have "keysight_receive fp fd revents (Some sdi) = Inr (TRUE, Some sdi1)"
    using assms by (auto simp add: keysight_receive_def)
  moreover have "\<exists>d1 evs. priv sdi1 = Some d1 \<and> state d1 = STATE_DIGITIZING
           \<and> trace (conn sdi1) = trace (conn sdi) @ evs \<and> list_all setup_event evs"
    using p(2,3,4) eq assms(2,5) by (auto simp add: appended_def)
  ultimately show ?thesis by blast
qed

theorem channel_start_failure_not_aborted_witness:
  "keysight_receive exact_fpu 0 G_IO_IN
      (Some \<lparr>priv = Some (example_devc\<lparr>state := STATE_DIGITIZING\<rparr>),
             conn = example_scpi\<lparr>replies := [Succeeded, Failed]\<rparr>\<rparr>)
   = Inr (TRUE, Some \<lparr>priv = Some (example_devc\<lparr>state := STATE_DIGITIZING\<rparr>),
                      conn = example_scpi\<lparr>trace := [Send (WAV_SOUR_POD 1), GetOpc]\<rparr>\<rparr>)"
proof -
  have cs: "keysight_channel_start
      \<lparr>priv = Some (example_devc\<lparr>state := STATE_DIGITIZING\<rparr>),
             conn = example_scpi\<lparr>replies := [Succeeded, Failed]\<rparr>\<rparr>
    = Inr (SR_ERR, \<lparr>priv = Some (example_devc\<lparr>state := STATE_DIGITIZING\<rparr>),
                      conn = example_scpi\<lparr>trace := [Send (WAV_SOUR_POD 1), GetOpc]\<rparr>\<rparr>)"
    by (simp add: keysight_channel_start_def keysight_config_set_def send_eq opc_eq peek_def
        example_devc_def example_scpi_def example_pod_def c_consts)
  show ?thesis
    using channel_start_failure_not_aborted [OF _ _ _ cs, of "example_devc\<lparr>state := STATE_DIGITIZING\<rparr>"
        G_IO_IN exact_fpu 0]
    by (simp add: c_consts)
qed

text \<open>
  The other call, line 408, drops the result: when starting the next channel fails, the
  state stays \<^verbatim>\<open>ReadingData\<close> and again nothing but setup commands was traced.
\<close>

lemma next_channel_start_result_ignored:
  assumes "state d = STATE_READING_DATA"
    and "\<not> num_channel_bytes d + scast len < scast (num_channel_bytes_total d)" "nxt \<noteq> []"
  shows "\<exists>sdi' d'. finish_channel sdi nxt len d s = Inr (TRUE, sdi') \<and> priv sdi' = Some d'
           \<and> state d' = STATE_READING_DATA \<and> appended setup_event s (conn sdi')"
  using finish_channel_next [OF assms(2,3), of sdi s] assms(1) by auto


subsection \<open>C8: a digital chunk passes through\<close>

text \<open>
  Claim C8.  When the callback reads a chunk of a digital channel (a pod), it sends one
  logic packet whose bytes are the bytes the transport delivered, in their order, and
  whose unit size is 1; the call sends no other packet of samples.
\<close>

theorem logic_chunk_passthrough:
  assumes "priv sdi = Some devc" "state devc = STATE_READING_DATA" "channel_entry devc = ch # nxt"
    and "revents = G_IO_IN \<or> revents = 0"
    and "start_block sdi devc (conn sdi) = Inr (devc2, scpi2)"
    and "reads scpi2 = RdAvail k # rs"
    and "ctype ch = SR_CHANNEL_LOGIC"
  shows "\<exists>sdi' more. keysight_receive fp fd revents (Some sdi) = Inr (TRUE, Some sdi')
     \<and> trace (conn sdi') = trace scpi2 @ ReadData (request_len devc2)
          # SessionSend (SR_DF_LOGIC (take (min k (nat (sint (request_len devc2)))) (wire scpi2)) 1) # more
     \<and> list_all (\<lambda>e. \<not> sample_event e) more"
  using receive_chunk [OF assms(1-6), of fp fd] assms(7)
  by (auto simp add: chunk_packet_def chunk_def)

theorem logic_chunk_passthrough_witness:
  "\<exists>sdi' more. keysight_receive exact_fpu 0 G_IO_IN
       (Some \<lparr>priv = Some (example_devc\<lparr>num_block_bytes := 1400, num_block_read := 500\<rparr>),
              conn = example_scpi\<lparr>wire := ''abcdef'', reads := [RdAvail 4]\<rparr>\<rparr>) = Inr (TRUE, Some sdi')
     \<and> trace (conn sdi') = ReadData 900 # SessionSend (SR_DF_LOGIC ''abcd'' 1) # more
     \<and> list_all (\<lambda>e. \<not> sample_event e) more"
  using logic_chunk_passthrough
    [of "\<lparr>priv = Some (example_devc\<lparr>num_block_bytes := 1400, num_block_read := 500\<rparr>),
              conn = example_scpi\<lparr>wire := ''abcdef'', reads := [RdAvail 4]\<rparr>\<rparr>"
        "example_devc\<lparr>num_block_bytes := 1400, num_block_read := 500\<rparr>"
        example_pod "[]" G_IO_IN
        "example_devc\<lparr>num_block_bytes := 1400, num_block_read := 500\<rparr>"
        "example_scpi\<lparr>wire := ''abcdef'', reads := [RdAvail 4]\<rparr>" 4 "[]" exact_fpu 0]
  by (simp add: example_devc_def example_scpi_def example_pod_def start_block_def request_len_def
      ACQ_BUFFER_SIZE_def)


subsection \<open>C9: the digits of an analog packet\<close>

text \<open>
  Claim C9 says that the digits are the negated floor of the logarithm, plus 1 when the
  logarithm is negative.  The cast of line 357 truncates toward zero.  With an increment of
  1/20 the logarithm is about -1.3: the packet has 2 digits, the claim's rule gives 3.
\<close>

theorem digits_floor_counterexample:
  "summary (keysight_receive exact_fpu 0 G_IO_IN
      (Some \<lparr>priv = Some (example_devc\<lparr>channel_entry := [example_analog, example_pod],
                                       num_block_bytes := 1400, num_block_read := 500\<rparr>),
             conn = example_scpi\<lparr>wire := [CHR 0x80, CHR 0x94, CHR 0x6C], reads := [RdAvail 2]\<rparr>\<rparr>))
   = Some (1, STATE_READING_DATA, 1,
       [ReadData 900, SessionSend (SR_DF_ANALOG example_analog [0, 1] 2)])
   \<and> vert_inc example_devc (index example_analog) = 1 / 20
   \<and> - \<lfloor>log 10 (1 / 20) :: real\<rfloor> + (if log 10 (1 / 20) < (0::real) then 1 else 0) = 3"
proof -
  have "summary (keysight_receive exact_fpu 0 G_IO_IN
      (Some \<lparr>priv = Some (example_devc\<lparr>channel_entry := [example_analog, example_pod],
                                       num_block_bytes := 1400, num_block_read := 500\<rparr>),
             conn = example_scpi\<lparr>wire := [CHR 0x80, CHR 0x94, CHR 0x6C], reads := [RdAvail 2]\<rparr>\<rparr>))
   = Some (1, STATE_READING_DATA, 1,
       [ReadData 900, SessionSend (SR_DF_ANALOG example_analog [0, 1] 2)])"
    by (simp add: summary_def example_devc_def example_scpi_def example_analog_def model_defs upt_rec
        analog_digits_twentieth analog_sample_def exact_fpu_simps)
  moreover have "- \<lfloor>log 10 (1 / 20) :: real\<rfloor> + (if log 10 (1 / 20) < (0::real) then 1 else 0) = 3"
    using log10_twentieth by (simp add: floor_log10_twentieth)
  ultimately show ?thesis by (simp add: example_devc_def)
qed

text \<open>
  Claim C9, as amended.  The digits of every analog packet are the negated truncation
  toward zero of \<^verbatim>\<open>log10f(vert_inc)\<close> (its ceiling when it is negative, its floor
  otherwise), plus 1 when it is negative; and the samples of the packet are the same
  whatever \<^verbatim>\<open>log10f\<close> returns.
\<close>

theorem analog_packet_digits:
  assumes "priv sdi = Some devc" "state devc = STATE_READING_DATA" "channel_entry devc = ch # nxt"
    and "revents = G_IO_IN \<or> revents = 0"
    and "start_block sdi devc (conn sdi) = Inr (devc2, scpi2)"
    and "reads scpi2 = RdAvail k # rs"
    and "ctype ch = SR_CHANNEL_ANALOG"
  shows "\<exists>samples. \<forall>g. \<exists>sdi' more.
       keysight_receive (fp\<lparr>log10f := g\<rparr>) fd revents (Some sdi) = Inr (TRUE, Some sdi')
     \<and> trace (conn sdi') = trace scpi2 @ ReadData (request_len devc2)
          # SessionSend (SR_DF_ANALOG ch samples
               (- (if g (vert_inc devc (index ch)) < 0 then \<lceil>g (vert_inc devc (index ch))\<rceil>
                   else \<lfloor>g (vert_inc devc (index ch))\<rfloor>)
                + (if g (vert_inc devc (index ch)) < 0 then 1 else 0))) # more
     \<and> list_all (\<lambda>e. \<not> sample_event e) more"
proof -
  define bs where "bs = chunk k (request_len devc2) scpi2"
  define samples where "samples = map (analog_sample fp (vert_reference devc (index ch))
      (vert_origin devc (index ch)) (vert_inc devc (index ch))) bs"
  have "\<exists>sdi' more.
       keysight_receive (fp\<lparr>log10f := g\<rparr>) fd revents (Some sdi) = Inr (TRUE, Some sdi')
     \<and> trace (conn sdi') = trace scpi2 @ ReadData (request_len devc2)
          # SessionSend (SR_DF_ANALOG ch samples
               (- (if g (vert_inc devc (index ch)) < 0 then \<lceil>g (vert_inc devc (index ch))\<rceil>
                   else \<lfloor>g (vert_inc devc (index ch))\<rfloor>)
                + (if g (vert_inc devc (index ch)) < 0 then 1 else 0))) # more
     \<and> list_all (\<lambda>e. \<not> sample_event e) more" for g
  proof -
    have s: "analog_sample (fp\<lparr>log10f := g\<rparr>) = analog_sample fp"
      by (simp add: analog_sample_def fun_eq_iff)
    have d: "analog_digits (fp\<lparr>log10f := g\<rparr>) v
               = - (if g v < 0 then \<lceil>g v\<rceil> else \<lfloor>g v\<rfloor>) + (if g v < 0 then 1 else 0)" for v
      by (simp add: analog_digits_def Let_def c_trunc_eq)
    show ?thesis
      using receive_chunk [OF assms(1-6), of "fp\<lparr>log10f := g\<rparr>" fd] assms(7)
        start_block_fields(1-4) [OF assms(5)]
      by (auto simp add: chunk_packet_def s d samples_def bs_def)
  qed
  then show ?thesis by blast
qed

theorem analog_packet_digits_witness:
  "\<exists>samples sdi' more.
       keysight_receive exact_fpu 0 G_IO_IN
         (Some \<lparr>priv = Some (example_devc\<lparr>channel_entry := [example_analog, example_pod],
                                          num_block_bytes := 1400, num_block_read := 500\<rparr>),
                conn = example_scpi\<lparr>wire := [CHR 0x80, CHR 0x94, CHR 0x6C],
                                    reads := [RdAvail 2]\<rparr>\<rparr>) = Inr (TRUE, Some sdi')
     \<and> trace (conn sdi') = ReadData 900 # SessionSend (SR_DF_ANALOG example_analog samples 2) # more
     \<and> list_all (\<lambda>e. \<not> sample_event e) more"
proof -
  let ?D = "example_devc\<lparr>channel_entry := [example_analog, example_pod],
                         num_block_bytes := 1400, num_block_read := 500\<rparr>"
  let ?C = "example_scpi\<lparr>wire := [CHR 0x80, CHR 0x94, CHR 0x6C], reads := [RdAvail 2]\<rparr>"
  have e: "exact_fpu\<lparr>log10f := log 10\<rparr> = exact_fpu"
    by (simp add: exact_fpu_def)
  have v: "vert_inc ?D (index example_analog) = 1 / 20"
    by (simp add: example_devc_def)
  have r: "request_len ?D = 900"
    by (simp add: example_devc_def request_len_def ACQ_BUFFER_SIZE_def)
  have t: "trace ?C = []"
    by (simp add: example_scpi_def)
  have "\<exists>samples. \<forall>g. \<exists>sdi' more.
       keysight_receive (exact_fpu\<lparr>log10f := g\<rparr>) 0 G_IO_IN (Some \<lparr>priv = Some ?D, conn = ?C\<rparr>)
         = Inr (TRUE, Some sdi')
     \<and> trace (conn sdi') = trace ?C @ ReadData (request_len ?D)
          # SessionSend (SR_DF_ANALOG example_analog samples
               (- (if g (vert_inc ?D (index example_analog)) < 0
                   then \<lceil>g (vert_inc ?D (index example_analog))\<rceil>
                   else \<lfloor>g (vert_inc ?D (index example_analog))\<rfloor>)
                + (if g (vert_inc ?D (index example_analog)) < 0 then 1 else 0))) # more
     \<and> list_all (\<lambda>e. \<not> sample_event e) more"
    by (rule analog_packet_digits [where nxt = "[example_pod]" and k = 2 and rs = "[]"])
      (simp_all add: example_devc_def example_scpi_def example_analog_def start_block_def)
  then obtain samples sdi' more where
    "keysight_receive (exact_fpu\<lparr>log10f := log 10\<rparr>) 0 G_IO_IN (Some \<lparr>priv = Some ?D, conn = ?C\<rparr>)
         = Inr (TRUE, Some sdi')"
    "trace (conn sdi') = trace ?C @ ReadData (request_len ?D)
          # SessionSend (SR_DF_ANALOG example_analog samples
               (- (if log 10 (vert_inc ?D (index example_analog)) < 0
                   then \<lceil>log 10 (vert_inc ?D (index example_analog))\<rceil>
                   else \<lfloor>log 10 (vert_inc ?D (index example_analog))\<rfloor>)
                + (if log 10 (vert_inc ?D (index example_analog)) < 0 then 1 else 0))) # more"
    "list_all (\<lambda>e. \<not> sample_event e) more"
    by blast
  then have "keysight_receive exact_fpu 0 G_IO_IN (Some \<lparr>priv = Some ?D, conn = ?C\<rparr>)
         = Inr (TRUE, Some sdi')
     \<and> trace (conn sdi') = ReadData 900 # SessionSend (SR_DF_ANALOG example_analog samples 2) # more
     \<and> list_all (\<lambda>e. \<not> sample_event e) more"
    using log10_twentieth unfolding e v r t
    by (simp add: ceiling_log10_twentieth)
  then show ?thesis by blast
qed


subsection \<open>C10: the calls that do nothing\<close>

text \<open>
  Claim C10.  With \<^verbatim>\<open>cb_data\<close> or the device context \<^verbatim>\<open>NULL\<close>, with a readiness event
  that is neither \<^verbatim>\<open>G_IO_IN\<close> nor 0, or in state \<^verbatim>\<open>Idle\<close>, the callback returns
  \<^verbatim>\<open>TRUE\<close> and the \<^verbatim>\<open>sdi\<close> is as it was: no field of the context has changed, no byte
  was requested and nothing was added to the trace.
\<close>

theorem receive_noop:
  assumes "cb_data = None
           \<or> (\<exists>sdi. cb_data = Some sdi \<and>
                 (priv sdi = None \<or> \<not> (revents = G_IO_IN \<or> revents = 0)
                  \<or> (\<exists>devc. priv sdi = Some devc \<and> state devc = STATE_IDLE)))"
  shows "keysight_receive fp fd revents cb_data = Inr (TRUE, cb_data)"
  using assms by (auto simp add: keysight_receive_def split: option.splits)

theorem receive_noop_witness:
  "keysight_receive exact_fpu 0 G_IO_IN None = Inr (TRUE, None)
   \<and> keysight_receive exact_fpu 0 G_IO_IN (Some \<lparr>priv = None, conn = example_scpi\<rparr>)
       = Inr (TRUE, Some \<lparr>priv = None, conn = example_scpi\<rparr>)
   \<and> keysight_receive exact_fpu 0 4 (Some \<lparr>priv = Some example_devc, conn = example_scpi\<rparr>)
       = Inr (TRUE, Some \<lparr>priv = Some example_devc, conn = example_scpi\<rparr>)
   \<and> keysight_receive exact_fpu 0 G_IO_IN
         (Some \<lparr>priv = Some (example_devc\<lparr>state := STATE_IDLE\<rparr>), conn = example_scpi\<rparr>)
       = Inr (TRUE, Some \<lparr>priv = Some (example_devc\<lparr>state := STATE_IDLE\<rparr>), conn = example_scpi\<rparr>)"
  using receive_noop [of None G_IO_IN exact_fpu 0]
    receive_noop [of "Some \<lparr>priv = None, conn = example_scpi\<rparr>" G_IO_IN exact_fpu 0]
    receive_noop [of "Some \<lparr>priv = Some example_devc, conn = example_scpi\<rparr>" 4 exact_fpu 0]
    receive_noop [of "Some \<lparr>priv = Some (example_devc\<lparr>state := STATE_IDLE\<rparr>), conn = example_scpi\<rparr>"
                     G_IO_IN exact_fpu 0]
  by (simp add: G_IO_IN_def)


end
